theory Spec2Isabelle
  imports Complex_Main "HOL-Library.Sublist"
begin

section \<open>JavaScript values used by the handlers\<close>

text \<open>
  A JavaScript number as the handlers use it: an integer or \<open>NaN\<close>. The handlers only
  compare these numbers with the constants 1, 24 and 100; an integer beyond \<open>2^53\<close> is kept
  exact here where JavaScript rounds it to the nearest double (or to \<open>Infinity\<close>), and that
  rounding is monotone and leaves 1, 24 and 100 fixed, so no comparison changes.
\<close>

datatype jsnum = NaN | Num int

text \<open>\<open>Math.max\<close> and \<open>Math.min\<close> of two arguments: \<open>NaN\<close> as soon as one argument is.\<close>

fun Math_max :: "jsnum \<Rightarrow> jsnum \<Rightarrow> jsnum" where
  "Math_max (Num a) (Num b) = Num (max a b)"
| "Math_max _ _ = NaN"

fun Math_min :: "jsnum \<Rightarrow> jsnum \<Rightarrow> jsnum" where
  "Math_min (Num a) (Num b) = Num (min a b)"
| "Math_min _ _ = NaN"

fun js_sub :: "jsnum \<Rightarrow> jsnum \<Rightarrow> jsnum" where
  "js_sub (Num a) (Num b) = Num (a - b)"
| "js_sub _ _ = NaN"

fun js_mul :: "jsnum \<Rightarrow> jsnum \<Rightarrow> jsnum" where
  "js_mul (Num a) (Num b) = Num (a * b)"
| "js_mul _ _ = NaN"

text \<open>
  \<open>parseInt(string)\<close> with no radix (ECMAScript 19.2.5): leading white space is dropped,
  then an optional sign, then an optional \<open>0x\<close>/\<open>0X\<close> (radix 16, otherwise radix 10); the
  longest prefix of digits of that radix is the value, and no digit at all gives \<open>NaN\<close>.
  Characters are code points below 256.
\<close>

definition StrWhiteSpaceChar :: "char \<Rightarrow> bool" where
  "StrWhiteSpaceChar c =
     (c = CHR 0x09 \<or> c = CHR 0x0A \<or> c = CHR 0x0B \<or> c = CHR 0x0C \<or> c = CHR 0x0D
      \<or> c = CHR 0x20 \<or> c = CHR 0xA0)"

definition digitValue :: "char \<Rightarrow> nat option" where
  "digitValue c =
     (let n = (of_char c :: nat) in
      if 48 \<le> n \<and> n \<le> 57 then Some (n - 48)
      else if 97 \<le> n \<and> n \<le> 122 then Some (n - 87)
      else if 65 \<le> n \<and> n \<le> 90 then Some (n - 55)
      else None)"

definition isRadixDigit :: "nat \<Rightarrow> char \<Rightarrow> bool" where
  "isRadixDigit R c = (case digitValue c of None \<Rightarrow> False | Some d \<Rightarrow> d < R)"

definition digitsValue :: "nat \<Rightarrow> string \<Rightarrow> nat" where
  "digitsValue R Z =
     foldl (\<lambda>acc c. acc * R + (case digitValue c of None \<Rightarrow> 0 | Some d \<Rightarrow> d)) 0 Z"

definition parseInt :: "string \<Rightarrow> jsnum" where
  "parseInt inputString =
     (let S = dropWhile StrWhiteSpaceChar inputString;
          sign = (if take 1 S = ''-'' then - 1 else (1::int));
          S1 = (if take 1 S = ''+'' \<or> take 1 S = ''-'' then drop 1 S else S);
          hex = (take 2 S1 = ''0x'' \<or> take 2 S1 = ''0X'');
          R = (if hex then 16 else 10);
          S2 = (if hex then drop 2 S1 else S1);
          Z = takeWhile (isRadixDigit R) S2
      in if Z = [] then NaN else Num (sign * int (digitsValue R Z)))"

text \<open>
  The decimal string of a non-negative integer, as a template literal \<open>`${n}`\<close> writes a
  user identifier.
\<close>

definition digit_char :: "nat \<Rightarrow> char" where
  "digit_char d = ''0123456789'' ! d"

fun string_of_nat :: "nat \<Rightarrow> string" where
  "string_of_nat n =
     (if n < 10 then [digit_char n]
      else string_of_nat (n div 10) @ [digit_char (n mod 10)])"

text \<open>\<open>String.prototype.includes\<close>: the argument occurs as a contiguous substring.\<close>

fun js_includes :: "string \<Rightarrow> string \<Rightarrow> bool" where
  "js_includes [] sub = (sub = [])"
| "js_includes (c # cs) sub = (prefix sub (c # cs) \<or> js_includes cs sub)"

text \<open>\<open>String.prototype.split\<close> on a one-character separator.\<close>

fun js_split :: "char \<Rightarrow> string \<Rightarrow> string list" where
  "js_split sep [] = [[]]"
| "js_split sep (c # cs) =
     (if c = sep then [] # js_split sep cs
      else (case js_split sep cs of [] \<Rightarrow> [[c]] | w # ws \<Rightarrow> (c # w) # ws))"

section \<open>Requests and responses\<close>

text \<open>
  \<open>req.query\<close> is a dictionary from parameter names to the strings supplied; an absent
  parameter is \<open>undefined\<close>, for which a destructuring default applies.
\<close>

type_synonym query = "string \<rightharpoonup> string"

text \<open>
  A destructuring default that is a number (\<open>page = 1\<close>, \<open>limit = 10\<close>, \<open>months = 12\<close>) is
  written as its decimal string: both \<open>parseInt\<close> and a template literal convert it to that
  string before use.
\<close>

definition param_or :: "query \<Rightarrow> string \<Rightarrow> string \<Rightarrow> string" where
  "param_or q name dflt = (case q name of None \<Rightarrow> dflt | Some s \<Rightarrow> s)"

section \<open>Transaction list: pagination (transactionController.getTransactions)\<close>

definition pageNum :: "query \<Rightarrow> jsnum" where
  "pageNum q = Math_max (Num 1) (parseInt (param_or q ''page'' ''1''))"

definition limitNum :: "query \<Rightarrow> jsnum" where
  "limitNum q = Math_min (Num 100) (Math_max (Num 1) (parseInt (param_or q ''limit'' ''10'')))"

definition offset :: "query \<Rightarrow> jsnum" where
  "offset q = js_mul (js_sub (pageNum q) (Num 1)) (limitNum q)"

section \<open>Budget analysis: status of a row (analyticsController.getBudgetAnalysis)\<close>

text \<open>
  A row of the budget query; \<open>budget_percentage\<close> is the two-decimal value the query rounds
  to (or 0), which \<open>parseFloat\<close> reads back.
\<close>

record budget_row =
  row_id :: nat
  row_name :: string
  row_color :: string
  current_amount :: rat
  budget_amount :: rat
  budget_percentage :: rat

record budget_entry =
  categoryId :: nat
  categoryName :: string
  categoryColor :: string
  currentAmount :: rat
  budgetAmount :: rat
  budgetPercentage :: rat
  status :: string

definition budget_status :: "rat \<Rightarrow> string" where
  "budget_status p = (if p > 100 then ''over'' else if p > 80 then ''warning'' else ''good'')"

definition budgetAnalysis :: "budget_row list \<Rightarrow> budget_entry list" where
  "budgetAnalysis rows =
     map (\<lambda>row. \<lparr>categoryId = row_id row, categoryName = row_name row,
                 categoryColor = row_color row, currentAmount = current_amount row,
                 budgetAmount = budget_amount row, budgetPercentage = budget_percentage row,
                 status = budget_status (budget_percentage row)\<rparr>) rows"

section \<open>Cache layer (config/redis.js, middleware/cache.js)\<close>

text \<open>
  The JSON body a handler sends: \<open>success\<close> and \<open>message\<close> may be absent. A response is
  the status code with that body.
\<close>

record 'd json =
  success :: "bool option"
  message :: "string option"
  data :: "'d option"

record 'd response =
  statusCode :: nat
  body :: "'d json"

text \<open>
  The Redis client: whether it is open, whether its commands currently reject (the
  connection was lost while the client still counts as open), and the stored entries, each
  with the expiration in seconds it was written with.
\<close>

record 'd redis =
  isOpen :: bool
  commands_reject :: bool
  store :: "string \<rightharpoonup> ('d json \<times> nat)"

text \<open>\<open>setCache\<close>, \<open>getCache\<close>, \<open>deleteCache\<close>: every error is caught inside the helper.\<close>

definition setCache :: "string \<Rightarrow> 'd json \<Rightarrow> nat \<Rightarrow> 'd redis \<Rightarrow> bool \<times> 'd redis" where
  "setCache key d expiration client =
     (if \<not> isOpen client then (False, client)
      else if commands_reject client then (False, client)
      else (True, client\<lparr>store := (store client)(key \<mapsto> (d, expiration))\<rparr>))"

definition getCache :: "string \<Rightarrow> 'd redis \<Rightarrow> 'd json option" where
  "getCache key client =
     (if \<not> isOpen client then None
      else if commands_reject client then None
      else map_option fst (store client key))"

definition deleteCache :: "string \<Rightarrow> 'd redis \<Rightarrow> bool \<times> 'd redis" where
  "deleteCache key client =
     (if \<not> isOpen client then (False, client)
      else if commands_reject client then (False, client)
      else (True, client\<lparr>store := (store client)(key := None)\<rparr>))"

text \<open>
  The glob patterns of Redis \<open>KEYS\<close>, for patterns made of literal characters and \<open>*\<close>
  (the only patterns the middleware builds: fixed words, a user identifier in decimal and
  a final \<open>*\<close>).
\<close>

fun glob :: "string \<Rightarrow> string \<Rightarrow> bool" where
  "glob [] k = (k = [])"
| "glob (p # ps) [] = (p = CHR ''*'' \<and> glob ps [])"
| "glob (p # ps) (c # cs) =
     (if p = CHR ''*'' then glob ps (c # cs) \<or> glob (p # ps) cs
      else p = c \<and> glob ps cs)"

text \<open>\<open>deleteCachePattern\<close>: \<open>KEYS pattern\<close>, then \<open>DEL\<close> of the keys found.\<close>

definition deleteCachePattern :: "string \<Rightarrow> 'd redis \<Rightarrow> bool \<times> 'd redis" where
  "deleteCachePattern pattern client =
     (if \<not> isOpen client then (False, client)
      else if commands_reject client then (False, client)
      else (True, client\<lparr>store := (\<lambda>k. if glob pattern k then None else store client k)\<rparr>))"

text \<open>
  \<open>cacheMiddleware(keyGenerator, expiration)\<close> in front of a read handler: a hit answers
  with the cached body (status 200, the handler is not run); a miss runs the handler and
  stores its body when the status is 200 and \<open>success\<close> is not \<open>false\<close>. The result is the
  response sent and the client afterwards.
\<close>

definition cacheMiddleware ::
  "('r \<Rightarrow> string) \<Rightarrow> nat \<Rightarrow> ('r \<Rightarrow> 'd response) \<Rightarrow> 'r \<Rightarrow> 'd redis \<Rightarrow> 'd response \<times> 'd redis" where
  "cacheMiddleware keyGenerator expiration handler req client =
     (let cacheKey = keyGenerator req in
      case getCache cacheKey client of
        Some cachedData \<Rightarrow> (\<lparr>statusCode = 200, body = cachedData\<rparr>, client)
      | None \<Rightarrow>
          (let res = handler req in
           (res,
            if statusCode res = 200 \<and> success (body res) \<noteq> Some False
            then snd (setCache cacheKey (body res) expiration client)
            else client)))"

section \<open>Database (scripts/migrate.js) and the requests of the mutating routes\<close>

datatype role = Admin | User | ReadOnly

record user_row =
  u_id :: nat
  u_email :: string
  u_name :: string
  u_role :: role

record category =
  c_id :: nat
  c_name :: string
  c_type :: string
  c_color :: "string option"

record transaction =
  t_id :: nat
  t_user_id :: nat
  t_category_id :: nat
  t_amount :: rat
  t_description :: string
  t_type :: string
  t_date :: string

text \<open>
  The bodies of the mutating requests. \<open>category_id\<close> is the text the driver sends to the
  server for it.
\<close>

record transaction_body =
  b_amount :: rat
  b_description :: string
  b_type :: string
  b_category_id :: string
  b_date :: string

record category_body =
  cb_name :: string
  cb_type :: string
  cb_color :: "string option"

text \<open>
  The three tables as lists of rows, with the two \<open>SERIAL\<close> sequences the handlers draw
  new identifiers from, and the server's side of a query, which the repository does not
  hold: \<open>reads_integer\<close> is the integer the server reads a text parameter as where the
  query compares it with an integer column, \<open>None\<close> when it rejects the text (not an integer,
  or beyond the range of the column); \<open>accepts_transaction\<close> and \<open>accepts_category\<close> say
  whether the server takes the values of a body for the remaining columns of an \<open>INSERT\<close> or
  \<open>UPDATE\<close> (the range of \<open>DECIMAL(12, 2)\<close>, the date, the \<open>CHECK\<close> on the kind, the
  lengths). A query with a parameter the server rejects throws, and the \<open>catch\<close> of the
  handler answers 500.
\<close>

record database =
  users :: "user_row list"
  categories :: "category list"
  transactions :: "transaction list"
  categories_id_seq :: nat
  transactions_id_seq :: nat
  reads_integer :: "string \<Rightarrow> int option"
  accepts_transaction :: "transaction_body \<Rightarrow> bool"
  accepts_category :: "category_body \<Rightarrow> bool"

text \<open>
  The reading of decimal notation, used for the databases of the examples: white space
  around, an optional sign, decimal digits, and a value a 32-bit column holds.
\<close>

definition is_space :: "char \<Rightarrow> bool" where
  "is_space c =
     (c = CHR 0x09 \<or> c = CHR 0x0A \<or> c = CHR 0x0B \<or> c = CHR 0x0C \<or> c = CHR 0x0D
      \<or> c = CHR 0x20)"

definition decimal_integer :: "string \<Rightarrow> int option" where
  "decimal_integer s =
     (let t = rev (dropWhile is_space (rev (dropWhile is_space s)));
          d = (if take 1 t = ''-'' \<or> take 1 t = ''+'' then drop 1 t else t);
          v = (if take 1 t = ''-'' then - int (digitsValue 10 d) else int (digitsValue 10 d))
      in if d = [] \<or> \<not> list_all (isRadixDigit 10) d then None
         else if - 2147483648 \<le> v \<and> v \<le> 2147483647 then Some v
         else None)"

text \<open>
  A request after \<open>authenticateToken\<close>: the resolved user, the text of the \<open>:id\<close> path
  parameter (empty on a route that has none; both are falsy), the query, the path of the
  matched route (\<open>req.route.path\<close>, the path the route was declared with), the body, and the
  messages \<open>validationResult(req)\<close> holds once the route's validation chain has run.
\<close>

record 'b request =
  req_user :: user_row
  params_id :: string
  req_query :: query
  route_path :: string
  req_body :: 'b
  validation_errors :: "string list"

definition reply :: "nat \<Rightarrow> bool \<Rightarrow> string \<Rightarrow> 'd option \<Rightarrow> 'd response" where
  "reply st ok msg d =
     \<lparr>statusCode = st, body = \<lparr>success = Some ok, message = Some msg, data = d\<rparr>\<rparr>"

text \<open>The answer of a handler's \<open>catch\<close>.\<close>

definition internal_error :: "'d response" where
  "internal_error = reply 500 False ''Internal server error'' None"

text \<open>
  \<open>invalidateUserCache(userId)\<close>: three pattern deletions, each with its errors caught, so
  the next one runs whatever the one before did.
\<close>

definition invalidateUserCache :: "nat \<Rightarrow> 'd redis \<Rightarrow> 'd redis" where
  "invalidateUserCache userId client =
     (let c1 = snd (deleteCachePattern (''analytics:'' @ string_of_nat userId @ '':*'') client);
          c2 = snd (deleteCachePattern (''transactions:'' @ string_of_nat userId @ '':*'') c1)
      in snd (deleteCachePattern (''user_analytics:'' @ string_of_nat userId @ ''*'') c2))"

definition invalidateCategoriesCache :: "'d redis \<Rightarrow> 'd redis" where
  "invalidateCategoriesCache client = snd (deleteCache ''categories:all'' client)"

text \<open>
  \<open>invalidateCacheAfterModification(invalidationFunction)\<close> around a mutating handler: the
  invalidation runs when the handler's status is in 200..299 and \<open>success\<close> is not \<open>false\<close>;
  the handler's response is sent either way.
\<close>

definition invalidateCacheAfterModification ::
  "('b request \<Rightarrow> 'c redis \<Rightarrow> 'c redis) \<Rightarrow> ('b request \<Rightarrow> database \<Rightarrow> 'd response \<times> database)
     \<Rightarrow> 'b request \<Rightarrow> database \<Rightarrow> 'c redis \<Rightarrow> 'd response \<times> database \<times> 'c redis" where
  "invalidateCacheAfterModification invalidationFunction handler req db client =
     (let (res, db') = handler req db in
      (res, db',
       if 200 \<le> statusCode res \<and> statusCode res < 300 \<and> success (body res) \<noteq> Some False
       then invalidationFunction req client
       else client))"

definition invalidateUserCacheAfterTransaction ::
  "('b request \<Rightarrow> database \<Rightarrow> 'd response \<times> database)
     \<Rightarrow> 'b request \<Rightarrow> database \<Rightarrow> 'c redis \<Rightarrow> 'd response \<times> database \<times> 'c redis" where
  "invalidateUserCacheAfterTransaction =
     invalidateCacheAfterModification (\<lambda>req. invalidateUserCache (u_id (req_user req)))"

section \<open>Transaction handlers (controllers/transactionController.js)\<close>

text \<open>
  \<open>const userId = req.user.role === 'admin' ? null : req.user.id\<close> followed by
  \<open>if (userId) query += ' AND user_id = $2'\<close>: the owner filter is added for a non-admin
  whose identifier is truthy (not 0).
\<close>

definition owner_filter :: "user_row \<Rightarrow> transaction \<Rightarrow> bool" where
  "owner_filter u t =
     (if u_role u \<noteq> Admin \<and> u_id u \<noteq> 0 then t_user_id t = u_id u else True)"

text \<open>The rows of \<open>WHERE id = $1\<close>, with \<open>AND user_id = $2\<close> where the filter is added.\<close>

definition select_transaction :: "int \<Rightarrow> user_row \<Rightarrow> database \<Rightarrow> transaction list" where
  "select_transaction i u db =
     filter (\<lambda>t. int (t_id t) = i \<and> owner_filter u t) (transactions db)"

text \<open>
  The data of a response is the transaction row; the category name and colour the source
  joins to it are left out.
\<close>

definition getTransaction :: "'b request \<Rightarrow> database \<Rightarrow> transaction response" where
  "getTransaction req db =
     (case reads_integer db (params_id req) of
        None \<Rightarrow> internal_error
      | Some i \<Rightarrow>
          (case select_transaction i (req_user req) db of
             [] \<Rightarrow> reply 404 False ''Transaction not found'' None
           | t # _ \<Rightarrow> \<lparr>statusCode = 200,
                        body = \<lparr>success = Some True, message = None, data = Some t\<rparr>\<rparr>))"

definition createTransaction ::
  "transaction_body request \<Rightarrow> database \<Rightarrow> transaction response \<times> database" where
  "createTransaction req db =
     (if validation_errors req \<noteq> [] then (reply 400 False ''Validation failed'' None, db)
      else
        (let b = req_body req in
         case reads_integer db (b_category_id b) of
           None \<Rightarrow> (internal_error, db)
         | Some cid \<Rightarrow>
             (case filter (\<lambda>c. int (c_id c) = cid) (categories db) of
                [] \<Rightarrow> (reply 400 False ''Invalid category ID'' None, db)
              | c # _ \<Rightarrow>
                  if c_type c \<noteq> b_type b
                  then (reply 400 False ''Category type does not match transaction type'' None, db)
                  else if \<not> accepts_transaction db b then (internal_error, db)
                  else
                    (let new = \<lparr>t_id = transactions_id_seq db + 1,
                                t_user_id = u_id (req_user req),
                                t_category_id = nat cid,
                                t_amount = b_amount b,
                                t_description = b_description b,
                                t_type = b_type b,
                                t_date = b_date b\<rparr>
                     in (reply 201 True ''Transaction created successfully'' (Some new),
                         db\<lparr>transactions := transactions db @ [new],
                            transactions_id_seq := transactions_id_seq db + 1\<rparr>)))))"

definition update_row :: "int \<Rightarrow> transaction_body \<Rightarrow> nat \<Rightarrow> transaction \<Rightarrow> transaction" where
  "update_row i b cid t =
     (if int (t_id t) = i
      then t\<lparr>t_amount := b_amount b, t_description := b_description b, t_type := b_type b,
             t_category_id := cid, t_date := b_date b\<rparr>
      else t)"

definition updateTransaction ::
  "transaction_body request \<Rightarrow> database \<Rightarrow> transaction response \<times> database" where
  "updateTransaction req db =
     (if validation_errors req \<noteq> [] then (reply 400 False ''Validation failed'' None, db)
      else
        (let b = req_body req in
         case reads_integer db (params_id req) of
           None \<Rightarrow> (internal_error, db)
         | Some i \<Rightarrow>
             (case select_transaction i (req_user req) db of
                [] \<Rightarrow> (reply 404 False ''Transaction not found'' None, db)
              | _ # _ \<Rightarrow>
                  (case reads_integer db (b_category_id b) of
                     None \<Rightarrow> (internal_error, db)
                   | Some cid \<Rightarrow>
                       (case filter (\<lambda>c. int (c_id c) = cid) (categories db) of
                          [] \<Rightarrow> (reply 400 False ''Invalid category ID'' None, db)
                        | c # _ \<Rightarrow>
                            if c_type c \<noteq> b_type b
                            then (reply 400 False
                                    ''Category type does not match transaction type'' None, db)
                            else if \<not> accepts_transaction db b then (internal_error, db)
                            else
                              (let db' = db\<lparr>transactions :=
                                               map (update_row i b (nat cid)) (transactions db)\<rparr>
                               in (reply 200 True ''Transaction updated successfully''
                                     (case filter (\<lambda>t. int (t_id t) = i) (transactions db') of
                                        [] \<Rightarrow> None
                                      | t # _ \<Rightarrow> Some t),
                                   db')))))))"

definition deleteTransaction ::
  "'b request \<Rightarrow> database \<Rightarrow> transaction response \<times> database" where
  "deleteTransaction req db =
     (case reads_integer db (params_id req) of
        None \<Rightarrow> (internal_error, db)
      | Some i \<Rightarrow>
          (case select_transaction i (req_user req) db of
             [] \<Rightarrow> (reply 404 False ''Transaction not found'' None, db)
           | _ # _ \<Rightarrow>
               (reply 200 True ''Transaction deleted successfully'' None,
                db\<lparr>transactions := filter (\<lambda>t. int (t_id t) \<noteq> i) (transactions db)\<rparr>)))"

section \<open>Category handlers (controllers/categoryController.js)\<close>

definition createCategory ::
  "category_body request \<Rightarrow> database \<Rightarrow> category response \<times> database" where
  "createCategory req db =
     (if validation_errors req \<noteq> [] then (reply 400 False ''Validation failed'' None, db)
      else
        (let b = req_body req in
         if filter (\<lambda>c. c_name c = cb_name b) (categories db) \<noteq> []
         then (reply 409 False ''Category with this name already exists'' None, db)
         else if \<not> accepts_category db b then (internal_error, db)
         else
           (let new = \<lparr>c_id = categories_id_seq db + 1, c_name = cb_name b,
                       c_type = cb_type b,
                       c_color = Some (case cb_color b of None \<Rightarrow> ''#6366f1'' | Some col \<Rightarrow> col)\<rparr>
            in (reply 201 True ''Category created successfully'' (Some new),
                db\<lparr>categories := categories db @ [new],
                   categories_id_seq := categories_id_seq db + 1\<rparr>))))"

definition update_category_row :: "int \<Rightarrow> category_body \<Rightarrow> category \<Rightarrow> category" where
  "update_category_row i b c =
     (if int (c_id c) = i
      then c\<lparr>c_name := cb_name b, c_type := cb_type b, c_color := cb_color b\<rparr>
      else c)"

definition updateCategory ::
  "category_body request \<Rightarrow> database \<Rightarrow> category response \<times> database" where
  "updateCategory req db =
     (if validation_errors req \<noteq> [] then (reply 400 False ''Validation failed'' None, db)
      else
        (let b = req_body req in
         case reads_integer db (params_id req) of
           None \<Rightarrow> (internal_error, db)
         | Some i \<Rightarrow>
             if filter (\<lambda>c. int (c_id c) = i) (categories db) = []
             then (reply 404 False ''Category not found'' None, db)
             else if filter (\<lambda>c. c_name c = cb_name b \<and> int (c_id c) \<noteq> i) (categories db) \<noteq> []
             then (reply 409 False ''Another category with this name already exists'' None, db)
             else if \<not> accepts_category db b then (internal_error, db)
             else
               (let db' = db\<lparr>categories := map (update_category_row i b) (categories db)\<rparr>
                in (reply 200 True ''Category updated successfully''
                      (case filter (\<lambda>c. int (c_id c) = i) (categories db') of
                         [] \<Rightarrow> None
                       | c # _ \<Rightarrow> Some c),
                    db'))))"

definition deleteCategory ::
  "'b request \<Rightarrow> database \<Rightarrow> category response \<times> database" where
  "deleteCategory req db =
     (case reads_integer db (params_id req) of
        None \<Rightarrow> (internal_error, db)
      | Some i \<Rightarrow>
          if filter (\<lambda>c. int (c_id c) = i) (categories db) = []
          then (reply 404 False ''Category not found'' None, db)
          else if length (filter (\<lambda>t. int (t_category_id t) = i) (transactions db)) > 0
          then (reply 400 False ''Cannot delete category that is being used in transactions''
                  None, db)
          else (reply 200 True ''Category deleted successfully'' None,
                db\<lparr>categories := filter (\<lambda>c. int (c_id c) \<noteq> i) (categories db)\<rparr>))"

section \<open>Deleting a user (routes/admin.js)\<close>

text \<open>
  The comparison with the caller is \<open>parseInt(id) === req.user.id\<close>, on the text of the
  parameter. The transactions of the deleted user go with it (\<open>ON DELETE CASCADE\<close>).
\<close>

definition deleteUser :: "'b request \<Rightarrow> database \<Rightarrow> unit response \<times> database" where
  "deleteUser req db =
     (case reads_integer db (params_id req) of
        None \<Rightarrow> (internal_error, db)
      | Some i \<Rightarrow>
          if filter (\<lambda>u. int (u_id u) = i) (users db) = []
          then (reply 404 False ''User not found'' None, db)
          else if parseInt (params_id req) = Num (int (u_id (req_user req)))
          then (reply 400 False ''Cannot delete your own account'' None, db)
          else (reply 200 True ''User deleted successfully'' None,
                db\<lparr>users := filter (\<lambda>u. int (u_id u) \<noteq> i) (users db),
                   transactions := filter (\<lambda>t. int (t_user_id t) \<noteq> i) (transactions db)\<rparr>))"

section \<open>Operations that write the category and transaction tables\<close>

datatype operation =
    CreateTransaction "transaction_body request"
  | UpdateTransaction "transaction_body request"
  | DeleteTransaction "unit request"
  | CreateCategory "category_body request"
  | UpdateCategory "category_body request"
  | DeleteCategory "unit request"
  | DeleteUser "unit request"

fun step :: "operation \<Rightarrow> database \<Rightarrow> database" where
  "step (CreateTransaction req) db = snd (createTransaction req db)"
| "step (UpdateTransaction req) db = snd (updateTransaction req db)"
| "step (DeleteTransaction req) db = snd (deleteTransaction req db)"
| "step (CreateCategory req) db = snd (createCategory req db)"
| "step (UpdateCategory req) db = snd (updateCategory req db)"
| "step (DeleteCategory req) db = snd (deleteCategory req db)"
| "step (DeleteUser req) db = snd (deleteUser req db)"




section \<open>Authorization gates (middleware/auth.js)\<close>

text \<open>A middleware either calls \<open>next()\<close> or answers the request itself.\<close>

datatype 'd gate = Next | Respond "'d response"

text \<open>
  \<open>requireRole(allowedRoles)\<close>; it runs after \<open>authenticateToken\<close>, so \<open>req.user\<close> is set and
  its 401 branch is not taken.
\<close>

definition requireRole :: "role list \<Rightarrow> 'b request \<Rightarrow> 'd gate" where
  "requireRole allowedRoles req =
     (if u_role (req_user req) \<notin> set allowedRoles
      then Respond (reply 403 False ''Insufficient permissions'' None)
      else Next)"

definition requireUserOrAdmin :: "'b request \<Rightarrow> 'd gate" where
  "requireUserOrAdmin = requireRole [User, Admin]"

definition requireAnyRole :: "'b request \<Rightarrow> 'd gate" where
  "requireAnyRole = requireRole [Admin, User, ReadOnly]"

text \<open>
  \<open>checkDataOwnership\<close>. The lookup is made only when \<open>req.route.path\<close> includes
  \<open>/transactions\<close> and the \<open>:id\<close> parameter is truthy; a lookup that throws is answered by
  the \<open>catch\<close> of the gate.
\<close>

definition checkDataOwnership :: "'b request \<Rightarrow> database \<Rightarrow> 'd gate" where
  "checkDataOwnership req db =
     (if u_role (req_user req) = Admin then Next
      else if js_includes (route_path req) ''/transactions''
      then (if params_id req \<noteq> []
            then (case reads_integer db (params_id req) of
                    None \<Rightarrow> Respond (reply 500 False ''Access verification failed'' None)
                  | Some i \<Rightarrow>
                      (case filter (\<lambda>t. int (t_id t) = i) (transactions db) of
                         [] \<Rightarrow> Respond (reply 404 False ''Transaction not found'' None)
                       | t # _ \<Rightarrow>
                           if t_user_id t \<noteq> u_id (req_user req)
                           then Respond (reply 403 False
                                           ''Access denied - not your transaction'' None)
                           else Next))
            else Next)
      else Next)"

section \<open>Single-transaction routes (routes/transactions.js)\<close>

text \<open>
  The three routes are declared on the router with the path \<open>/:id\<close>, which is what
  \<open>req.route.path\<close> holds while their middleware runs. Each runs its gates in the declared
  order; the rate limiter and \<open>authenticateToken\<close> come before and are not repeated here.
\<close>

definition router_get_id :: "'b request \<Rightarrow> database \<Rightarrow> transaction response" where
  "router_get_id req0 db =
     (let req = req0\<lparr>route_path := ''/:id''\<rparr> in
      case requireAnyRole req of
        Respond r \<Rightarrow> r
      | Next \<Rightarrow>
          (case checkDataOwnership req db of
             Respond r \<Rightarrow> r
           | Next \<Rightarrow> getTransaction req db))"

definition router_put_id ::
  "transaction_body request \<Rightarrow> database \<Rightarrow> 'c redis
     \<Rightarrow> transaction response \<times> database \<times> 'c redis" where
  "router_put_id req0 db client =
     (let req = req0\<lparr>route_path := ''/:id''\<rparr> in
      case requireUserOrAdmin req of
        Respond r \<Rightarrow> (r, db, client)
      | Next \<Rightarrow>
          (case checkDataOwnership req db of
             Respond r \<Rightarrow> (r, db, client)
           | Next \<Rightarrow> invalidateUserCacheAfterTransaction updateTransaction req db client))"

definition router_delete_id ::
  "unit request \<Rightarrow> database \<Rightarrow> 'c redis \<Rightarrow> transaction response \<times> database \<times> 'c redis" where
  "router_delete_id req0 db client =
     (let req = req0\<lparr>route_path := ''/:id''\<rparr> in
      case requireUserOrAdmin req of
        Respond r \<Rightarrow> (r, db, client)
      | Next \<Rightarrow>
          (case checkDataOwnership req db of
             Respond r \<Rightarrow> (r, db, client)
           | Next \<Rightarrow> invalidateUserCacheAfterTransaction deleteTransaction req db client))"

section \<open>Cache keys and the cached routes (middleware/cache.js)\<close>

text \<open>\<open>x || 'dflt'\<close> on a query parameter: the default for an absent or empty string.\<close>

definition or_default :: "string option \<Rightarrow> string \<Rightarrow> string" where
  "or_default x dflt = (case x of None \<Rightarrow> dflt | Some s \<Rightarrow> if s = [] then dflt else s)"

definition analyticsKeyGenerator :: "'b request \<Rightarrow> string" where
  "analyticsKeyGenerator req =
     ''analytics:'' @ string_of_nat (u_id (req_user req)) @ '':''
       @ param_or (req_query req) ''period'' ''month''"

definition transactionsKeyGenerator :: "'b request \<Rightarrow> string" where
  "transactionsKeyGenerator req =
     ''transactions:'' @ string_of_nat (u_id (req_user req))
       @ '':'' @ param_or (req_query req) ''page'' ''1''
       @ '':'' @ param_or (req_query req) ''limit'' ''10''
       @ '':'' @ or_default (req_query req ''category'') ''all''
       @ '':'' @ or_default (req_query req ''type'') ''all''
       @ '':'' @ or_default (req_query req ''search'') ''none''"

definition categoriesKeyGenerator :: "'b request \<Rightarrow> string" where
  "categoriesKeyGenerator req = ''categories:all''"

definition userAnalyticsKeyGenerator :: "'b request \<Rightarrow> string" where
  "userAnalyticsKeyGenerator req = ''user_analytics:'' @ string_of_nat (u_id (req_user req))"

definition cacheAnalytics ::
  "('b request \<Rightarrow> 'd response) \<Rightarrow> 'b request \<Rightarrow> 'd redis \<Rightarrow> 'd response \<times> 'd redis" where
  "cacheAnalytics = cacheMiddleware analyticsKeyGenerator (15 * 60)"

definition cacheTransactions ::
  "('b request \<Rightarrow> 'd response) \<Rightarrow> 'b request \<Rightarrow> 'd redis \<Rightarrow> 'd response \<times> 'd redis" where
  "cacheTransactions = cacheMiddleware transactionsKeyGenerator (5 * 60)"

definition cacheCategories ::
  "('b request \<Rightarrow> 'd response) \<Rightarrow> 'b request \<Rightarrow> 'd redis \<Rightarrow> 'd response \<times> 'd redis" where
  "cacheCategories = cacheMiddleware categoriesKeyGenerator (60 * 60)"

definition cacheUserAnalytics ::
  "('b request \<Rightarrow> 'd response) \<Rightarrow> 'b request \<Rightarrow> 'd redis \<Rightarrow> 'd response \<times> 'd redis" where
  "cacheUserAnalytics = cacheMiddleware userAnalyticsKeyGenerator (15 * 60)"

text \<open>
  The keys one user's requests are cached under, which are the keys
  \<open>invalidateUserCache\<close> of that user aims at.
\<close>

definition user_namespace :: "nat \<Rightarrow> string \<Rightarrow> bool" where
  "user_namespace userId k =
     (prefix (''analytics:'' @ string_of_nat userId @ '':'') k
      \<or> prefix (''transactions:'' @ string_of_nat userId @ '':'') k
      \<or> prefix (''user_analytics:'' @ string_of_nat userId) k)"

text \<open>
  A store without a \<open>user_analytics:\<close> key. \<open>cacheUserAnalytics\<close>, the one middleware that
  writes such a key, is exported by the module and mounted on no route.
\<close>

definition no_user_analytics_keys :: "'d redis \<Rightarrow> bool" where
  "no_user_analytics_keys client =
     (\<forall>k. prefix ''user_analytics:'' k \<longrightarrow> store client k = None)"

section \<open>Token verification (middleware/auth.js)\<close>

text \<open>
  What \<open>jwt.verify(token, secret)\<close> of the jsonwebtoken library does with a token: it returns
  the payload (here its \<open>userId\<close>, absent when the payload has none) of a token whose
  signature is valid and that has not expired; it throws \<open>JsonWebTokenError\<close> for a token
  that is malformed or whose signature is not valid, \<open>TokenExpiredError\<close> for a validly
  signed token past its expiry, and possibly another error. The library is not part of the
  repository: \<open>authenticateToken\<close> takes its behaviour as the parameter \<open>verify\<close>.
\<close>

datatype verify_result = Decoded "nat option" | JsonWebTokenError | TokenExpiredError | OtherError

datatype auth_result = Authenticated user_row | Rejected "unit response"

text \<open>\<open>authHeader && authHeader.split(' ')[1]\<close>, absent when it is falsy.\<close>

definition header_token :: "string option \<Rightarrow> string option" where
  "header_token authHeader =
     (case authHeader of
        None \<Rightarrow> None
      | Some h \<Rightarrow>
          if h = [] then None
          else (case js_split (CHR '' '') h of
                  _ # tok # _ \<Rightarrow> if tok = [] then None else Some tok
                | _ \<Rightarrow> None))"

definition authenticateToken ::
  "(string \<Rightarrow> verify_result) \<Rightarrow> string option \<Rightarrow> database \<Rightarrow> auth_result" where
  "authenticateToken verify authHeader db =
     (case header_token authHeader of
        None \<Rightarrow> Rejected (reply 401 False ''Access token is required'' None)
      | Some token \<Rightarrow>
          (case verify token of
             Decoded userId \<Rightarrow>
               (case filter (\<lambda>u. Some (u_id u) = userId) (users db) of
                  [] \<Rightarrow> Rejected (reply 401 False ''Invalid token - user not found'' None)
                | u # _ \<Rightarrow> Authenticated u)
           | JsonWebTokenError \<Rightarrow> Rejected (reply 401 False ''Invalid token'' None)
           | TokenExpiredError \<Rightarrow> Rejected (reply 401 False ''Token expired'' None)
           | OtherError \<Rightarrow> Rejected (reply 500 False ''Authentication failed'' None)))"

section \<open>Monthly trends (controllers/analyticsController.js)\<close>

text \<open>
  A JavaScript \<open>Date\<close> as year, month (0 to 11) and day of the month, for a server whose
  time zone is UTC (so that \<open>setMonth\<close>, which works in local time, and \<open>toISOString\<close>,
  which prints UTC, agree). The time of day plays no part.
\<close>

record js_date =
  d_year :: int
  d_month :: nat
  d_day :: nat

definition leap_year :: "int \<Rightarrow> bool" where
  "leap_year y = (y mod 4 = 0 \<and> (y mod 100 \<noteq> 0 \<or> y mod 400 = 0))"

definition days_in_month :: "int \<Rightarrow> nat \<Rightarrow> nat" where
  "days_in_month y m =
     (if m = 1 then (if leap_year y then 29 else 28)
      else if m = 3 \<or> m = 5 \<or> m = 8 \<or> m = 10 then 30
      else 31)"

text \<open>
  \<open>Date.prototype.setMonth(m)\<close>: the month may lie outside 0..11 and then moves the year;
  the day of the month is kept, and a day the new month does not have runs over into the
  month after it (at most three days, so never further).
\<close>

definition setMonth :: "js_date \<Rightarrow> int \<Rightarrow> js_date" where
  "setMonth d m =
     (let y = d_year d + m div 12;
          mn = nat (m mod 12);
          dim = days_in_month y mn
      in if d_day d \<le> dim then \<lparr>d_year = y, d_month = mn, d_day = d_day d\<rparr>
         else \<lparr>d_year = y, d_month = mn + 1, d_day = d_day d - dim\<rparr>)"

definition pad :: "nat \<Rightarrow> string \<Rightarrow> string" where
  "pad n s = replicate (n - length s) (CHR ''0'') @ s"

text \<open>\<open>toISOString().slice(0, 7)\<close>, for the years 0 to 9999.\<close>

definition monthKey :: "js_date \<Rightarrow> string" where
  "monthKey d =
     pad 4 (string_of_nat (nat (d_year d))) @ ''-'' @ pad 2 (string_of_nat (d_month d + 1))"

record trend_row =
  tr_month :: js_date
  tr_type :: string
  tr_total :: rat

record month_data =
  md_income :: rat
  md_expense :: rat

record trend =
  month :: string
  income :: rat
  expense :: rat
  balance :: rat

text \<open>The \<open>forEach\<close> over the rows of the query that fills \<open>monthlyData\<close>.\<close>

definition add_row :: "trend_row \<Rightarrow> (string \<rightharpoonup> month_data) \<Rightarrow> (string \<rightharpoonup> month_data)" where
  "add_row row monthlyData =
     (let k = monthKey (tr_month row);
          cur = (case monthlyData k of
                   None \<Rightarrow> \<lparr>md_income = 0, md_expense = 0\<rparr>
                 | Some md \<Rightarrow> md)
      in monthlyData(k \<mapsto>
           (if tr_type row = ''income'' then cur\<lparr>md_income := tr_total row\<rparr>
            else if tr_type row = ''expense'' then cur\<lparr>md_expense := tr_total row\<rparr>
            else cur)))"

definition monthlyData :: "trend_row list \<Rightarrow> (string \<rightharpoonup> month_data)" where
  "monthlyData rows = fold add_row rows Map.empty"

definition monthsBack :: "query \<Rightarrow> jsnum" where
  "monthsBack q = Math_min (Num 24) (Math_max (Num 1) (parseInt (param_or q ''months'' ''12'')))"

text \<open>The loop \<open>for (let i = 0; i < monthsBack; i++)\<close> that builds \<open>trends\<close>.\<close>

definition trends :: "js_date \<Rightarrow> nat \<Rightarrow> trend_row list \<Rightarrow> trend list" where
  "trends now n rows =
     (let startDate = setMonth now (int (d_month now) - int n) in
      map (\<lambda>i.
             let currentDate = setMonth startDate (int (d_month startDate) + int i);
                 k = monthKey currentDate;
                 monthData = (case monthlyData rows k of
                                None \<Rightarrow> \<lparr>md_income = 0, md_expense = 0\<rparr>
                              | Some md \<Rightarrow> md)
             in \<lparr>month = k, income = md_income monthData, expense = md_expense monthData,
                 balance = md_income monthData - md_expense monthData\<rparr>)
          [0..<n])"

text \<open>
  \<open>getMonthlyTrends\<close> at the date \<open>now\<close>, with the rows the query returns. When \<open>monthsBack\<close>
  is \<open>NaN\<close> the query text holds \<open>INTERVAL 'NaN months'\<close>, the database rejects it and the
  \<open>catch\<close> answers 500.
\<close>

definition getMonthlyTrends :: "js_date \<Rightarrow> query \<Rightarrow> trend_row list \<Rightarrow> (trend list) response" where
  "getMonthlyTrends now q rows =
     (case monthsBack q of
        NaN \<Rightarrow> reply 500 False ''Internal server error'' None
      | Num n \<Rightarrow> \<lparr>statusCode = 200,
                   body = \<lparr>success = Some True, message = None,
                           data = Some (trends now (nat n) rows)\<rparr>\<rparr>)"

section \<open>Evaluation rules\<close>

text \<open>
  The equation of \<open>string_of_nat\<close> rewrites its own right-hand side; it is replaced by
  rules that apply to numerals and to single digits only.
\<close>

declare string_of_nat.simps [simp del]

lemma string_of_nat_numeral [simp]:
  "string_of_nat (numeral k) =
     (if numeral k < (10::nat) then [digit_char (numeral k)]
      else string_of_nat (numeral k div 10) @ [digit_char (numeral k mod 10)])"
  by (subst string_of_nat.simps) simp

lemma string_of_nat_digit [simp]: "n < 10 \<Longrightarrow> string_of_nat n = [digit_char n]"
  by (simp add: string_of_nat.simps)

lemmas parseInt_eval = parseInt_def StrWhiteSpaceChar_def isRadixDigit_def digitValue_def
  digitsValue_def param_or_def

lemmas decimal_eval = decimal_integer_def is_space_def isRadixDigit_def digitValue_def
  digitsValue_def

lemma upt_three: "[0..<3] = [0, 1, 2]"
  by (simp add: upt_conv_Cons)

section \<open>Pagination of the transaction list\<close>

text \<open>
  Where \<open>parseInt\<close> reads a number, the page is at least 1 and the limit lies in 1..100;
  \<open>limit=0\<close> gives 1, \<open>limit=500\<close> gives 100, and the defaults are page 1 and limit 10.
\<close>

lemma pagination_of_number:
  "parseInt (param_or q ''page'' ''1'') = Num p \<Longrightarrow> pageNum q = Num (max 1 p)"
  "parseInt (param_or q ''limit'' ''10'') = Num l \<Longrightarrow> limitNum q = Num (min 100 (max 1 l))"
  by (simp_all add: pageNum_def limitNum_def)

lemma pagination_examples:
  "limitNum (Map.empty(''limit'' \<mapsto> ''0'')) = Num 1"
  "limitNum (Map.empty(''limit'' \<mapsto> ''500'')) = Num 100"
  "pageNum Map.empty = Num 1"
  "limitNum Map.empty = Num 10"
  by (simp_all add: pageNum_def limitNum_def parseInt_eval)

text \<open>
  C1 (the claim: whatever strings are supplied for \<open>page\<close> and \<open>limit\<close>, also non-numeric
  ones, the effective page is at least 1 and the effective limit lies in 1..100). On the
  request \<open>GET /api/transactions?page=abc\<close> the handler computes the page \<open>NaN\<close>, and with it the
  offset \<open>NaN\<close>; on \<open>?limit=abc\<close> it computes the limit \<open>NaN\<close>. \<open>NaN\<close> is neither at least 1
  nor within 1..100.
\<close>

theorem getTransactions_pagination_not_a_number:
  "pageNum (Map.empty(''page'' \<mapsto> ''abc'')) = NaN
   \<and> limitNum (Map.empty(''limit'' \<mapsto> ''abc'')) = NaN
   \<and> offset (Map.empty(''page'' \<mapsto> ''abc'')) = NaN"
  by (simp add: pageNum_def limitNum_def offset_def parseInt_eval)

section \<open>Budget status\<close>

text \<open>
  C8, the claim as stated (a percentage of exactly 80 is reported as \<open>warning\<close>) fails: the
  row with percentage 80 is reported as \<open>good\<close>.
\<close>

theorem budget_status_eighty_counterexample:
  "budget_status 80 = ''good'' \<and> budget_status 80 \<noteq> ''warning''
   \<and> map status (budgetAnalysis [\<lparr>row_id = 5, row_name = ''Food'', row_color = ''#ef4444'',
          current_amount = 40, budget_amount = 50, budget_percentage = 80\<rparr>]) = [''good'']"
  by (simp add: budget_status_def budgetAnalysis_def)

text \<open>
  C8, amended: the status of every row of the budget analysis is a function of its
  percentage \<open>p\<close>: \<open>good\<close> exactly when \<open>p \<le> 80\<close>, \<open>warning\<close> exactly when \<open>80 < p \<le> 100\<close>,
  \<open>over\<close> exactly when \<open>p > 100\<close>. So 80 is \<open>good\<close> and 100 is \<open>warning\<close>.
\<close>

theorem budget_status_boundaries:
  "(budget_status p = ''good'' \<longleftrightarrow> p \<le> 80)
   \<and> (budget_status p = ''warning'' \<longleftrightarrow> 80 < p \<and> p \<le> 100)
   \<and> (budget_status p = ''over'' \<longleftrightarrow> 100 < p)
   \<and> map status (budgetAnalysis rows) = map (\<lambda>row. budget_status (budget_percentage row)) rows"
  by (auto simp add: budget_status_def budgetAnalysis_def)

section \<open>Monthly trends\<close>

text \<open>Whenever the request succeeds, the series has as many entries as the window asks for.\<close>

lemma length_trends: "length (trends now n rows) = n"
  by (simp add: trends_def Let_def)

lemma monthsBack_range: "monthsBack q = Num n \<Longrightarrow> 1 \<le> n \<and> n \<le> 24"
  by (cases "parseInt (param_or q ''months'' ''12'')") (auto simp: monthsBack_def)

text \<open>
  C7 (the claim: the series has one entry per calendar month of the trailing window, in
  chronological order, a month without transactions present as a zero entry and never
  omitted). On \<open>GET /api/analytics/trends?months=3\<close> served on 30 April 2024 the handler
  answers with three entries whose months are January, March and March: February is
  omitted and March stands twice, because \<open>setMonth\<close> keeps the day 30, which February does
  not have.
\<close>

theorem getMonthlyTrends_month_end:
  "getMonthlyTrends \<lparr>d_year = 2024, d_month = 3, d_day = 30\<rparr> (Map.empty(''months'' \<mapsto> ''3'')) []
     = \<lparr>statusCode = 200,
        body = \<lparr>success = Some True, message = None,
                data = Some [\<lparr>month = ''2024-01'', income = 0, expense = 0, balance = 0\<rparr>,
                             \<lparr>month = ''2024-03'', income = 0, expense = 0, balance = 0\<rparr>,
                             \<lparr>month = ''2024-03'', income = 0, expense = 0, balance = 0\<rparr>]\<rparr>\<rparr>"
  by (simp add: getMonthlyTrends_def monthsBack_def parseInt_eval trends_def upt_three setMonth_def
      days_in_month_def leap_year_def monthKey_def pad_def digit_char_def monthlyData_def)

section \<open>The ownership gate on the single-transaction routes\<close>

text \<open>
  The path \<open>/:id\<close> the routes are declared with does not include \<open>/transactions\<close>, so
  on these routes the gate makes no lookup and lets every caller pass.
\<close>

lemma route_path_has_no_transactions: "\<not> js_includes ''/:id'' ''/transactions''"
  by simp

lemma checkDataOwnership_on_router:
  "checkDataOwnership (req\<lparr>route_path := ''/:id''\<rparr>) db = Next"
  by (simp add: checkDataOwnership_def)

text \<open>
  C3 (the claim: on \<open>GET/PUT/DELETE /api/transactions/:id\<close> the gate answers a non-admin
  caller 404 for a transaction that does not exist and 403 for one that another user owns).
  A user with identifier 2 requests \<open>GET /api/transactions/7\<close>, and transaction 7 belongs
  to user 1: the gate calls \<open>next()\<close>, and the response is the handler's 404
  \<open>Transaction not found\<close>, not the gate's 403.
\<close>

theorem ownership_gate_passes_foreign_transaction:
  "checkDataOwnership
     \<lparr>req_user = \<lparr>u_id = 2, u_email = ''b@example.com'', u_name = ''B'', u_role = User\<rparr>,
      params_id = ''7'', req_query = Map.empty, route_path = ''/:id'', req_body = (),
      validation_errors = []\<rparr>
     \<lparr>users = [], categories = [],
      transactions = [\<lparr>t_id = 7, t_user_id = 1, t_category_id = 1, t_amount = 10,
                       t_description = ''rent'', t_type = ''expense'', t_date = ''2024-01-15''\<rparr>],
      categories_id_seq = 1, transactions_id_seq = 7,
      reads_integer = decimal_integer, accepts_transaction = (\<lambda>b. True),
      accepts_category = (\<lambda>b. True)\<rparr>
     = (Next :: transaction gate)
   \<and> router_get_id
     \<lparr>req_user = \<lparr>u_id = 2, u_email = ''b@example.com'', u_name = ''B'', u_role = User\<rparr>,
      params_id = ''7'', req_query = Map.empty, route_path = ''/:id'', req_body = (),
      validation_errors = []\<rparr>
     \<lparr>users = [], categories = [],
      transactions = [\<lparr>t_id = 7, t_user_id = 1, t_category_id = 1, t_amount = 10,
                       t_description = ''rent'', t_type = ''expense'', t_date = ''2024-01-15''\<rparr>],
      categories_id_seq = 1, transactions_id_seq = 7,
      reads_integer = decimal_integer, accepts_transaction = (\<lambda>b. True),
      accepts_category = (\<lambda>b. True)\<rparr>
     = reply 404 False ''Transaction not found'' None"
  by (simp add: checkDataOwnership_def router_get_id_def requireAnyRole_def requireRole_def
      getTransaction_def select_transaction_def owner_filter_def decimal_eval)

section \<open>Cache keys\<close>

text \<open>
  The key of a transaction list is made of the user and of \<open>page\<close>, \<open>limit\<close>,
  \<open>category\<close>, \<open>type\<close> and \<open>search\<close>; no other query parameter changes it.
\<close>

lemma transactionsKeyGenerator_ignores:
  "name \<notin> {''page'', ''limit'', ''category'', ''type'', ''search''} \<Longrightarrow>
   transactionsKeyGenerator (req\<lparr>req_query := (req_query req)(name := v)\<rparr>)
     = transactionsKeyGenerator req"
  by (auto simp add: transactionsKeyGenerator_def param_or_def)

text \<open>
  C5 (the claim: two list requests of one user that differ in a query parameter which
  influences the result, such as \<open>start_date\<close>, are keyed differently and never served
  from each other's cache entry). The requests \<open>GET /api/transactions?start_date=2024-01-01\<close>
  and \<open>GET /api/transactions?start_date=2025-01-01\<close> of the same user have the same key,
  and the second is answered with the body cached for the first, whatever the handler
  would have answered.
\<close>

theorem transactions_key_ignores_start_date:
  "transactionsKeyGenerator (req\<lparr>req_query := Map.empty(''start_date'' \<mapsto> ''2024-01-01'')\<rparr>)
     = transactionsKeyGenerator (req\<lparr>req_query := Map.empty(''start_date'' \<mapsto> ''2025-01-01'')\<rparr>)
   \<and> fst (cacheTransactions handler
          (req\<lparr>req_query := Map.empty(''start_date'' \<mapsto> ''2025-01-01'')\<rparr>)
          \<lparr>isOpen = True, commands_reject = False,
           store = Map.empty(transactionsKeyGenerator
                     (req\<lparr>req_query := Map.empty(''start_date'' \<mapsto> ''2024-01-01'')\<rparr>)
                   \<mapsto> (cached, 300))\<rparr>)
     = \<lparr>statusCode = 200, body = cached\<rparr>"
  by (simp add: transactionsKeyGenerator_def param_or_def or_default_def cacheTransactions_def
      cacheMiddleware_def getCache_def)

section \<open>Population of the cache\<close>

text \<open>
  C6: on a request that misses the cache, the response sent is the handler's, whatever the
  state of the Redis client (closed, or rejecting the write); the body is stored under the
  computed key, with the expiration of the middleware, exactly when the status is 200, the
  \<open>success\<close> flag is not \<open>false\<close> and the write goes through, and otherwise the
  entries stay as they were. The expirations are 900 seconds (15 minutes) for analytics,
  3600 (1 hour) for the category list and 300 (5 minutes) for the transaction list.
\<close>

theorem cache_miss_population:
  "getCache (keyGenerator req) client = None \<Longrightarrow>
   fst (cacheMiddleware keyGenerator expiration handler req client) = handler req
   \<and> isOpen (snd (cacheMiddleware keyGenerator expiration handler req client)) = isOpen client
   \<and> commands_reject (snd (cacheMiddleware keyGenerator expiration handler req client))
       = commands_reject client
   \<and> store (snd (cacheMiddleware keyGenerator expiration handler req client))
       = (if statusCode (handler req) = 200 \<and> success (body (handler req)) \<noteq> Some False
             \<and> isOpen client \<and> \<not> commands_reject client
          then (store client)(keyGenerator req \<mapsto> (body (handler req), expiration))
          else store client)
   \<and> cacheAnalytics = cacheMiddleware analyticsKeyGenerator 900
   \<and> cacheCategories = cacheMiddleware categoriesKeyGenerator 3600
   \<and> cacheTransactions = cacheMiddleware transactionsKeyGenerator 300"
  unfolding cacheAnalytics_def cacheCategories_def cacheTransactions_def
  by (simp add: cacheMiddleware_def setCache_def Let_def)

text \<open>
  The hypothesis of C6 holds for a first dashboard request of user 5 on an empty cache: a
  successful response is stored under \<open>analytics:5:month\<close> for 900 seconds; with a client
  that rejects the write the same response is sent and nothing is stored; a 500 response is
  sent and not stored.
\<close>

theorem cache_miss_population_witness:
  "getCache (analyticsKeyGenerator
       \<lparr>req_user = \<lparr>u_id = 5, u_email = ''e@example.com'', u_name = ''E'', u_role = User\<rparr>,
        params_id = [], req_query = Map.empty, route_path = ''/dashboard'', req_body = (),
        validation_errors = []\<rparr>)
     \<lparr>isOpen = True, commands_reject = False,
      store = (Map.empty :: string \<rightharpoonup> (string json \<times> nat))\<rparr> = None
   \<and> cacheMiddleware analyticsKeyGenerator 900
       (\<lambda>r. \<lparr>statusCode = 200, body = \<lparr>success = Some True, message = None, data = Some ''summary''\<rparr>\<rparr>)
       \<lparr>req_user = \<lparr>u_id = 5, u_email = ''e@example.com'', u_name = ''E'', u_role = User\<rparr>,
        params_id = [], req_query = Map.empty, route_path = ''/dashboard'', req_body = (),
        validation_errors = []\<rparr>
       \<lparr>isOpen = True, commands_reject = False, store = Map.empty\<rparr>
     = (\<lparr>statusCode = 200, body = \<lparr>success = Some True, message = None, data = Some ''summary''\<rparr>\<rparr>,
        \<lparr>isOpen = True, commands_reject = False,
         store = Map.empty(''analytics:5:month''
                   \<mapsto> (\<lparr>success = Some True, message = None, data = Some ''summary''\<rparr>, 900))\<rparr>)
   \<and> cacheMiddleware analyticsKeyGenerator 900
       (\<lambda>r. \<lparr>statusCode = 200, body = \<lparr>success = Some True, message = None, data = Some ''summary''\<rparr>\<rparr>)
       \<lparr>req_user = \<lparr>u_id = 5, u_email = ''e@example.com'', u_name = ''E'', u_role = User\<rparr>,
        params_id = [], req_query = Map.empty, route_path = ''/dashboard'', req_body = (),
        validation_errors = []\<rparr>
       \<lparr>isOpen = True, commands_reject = True, store = Map.empty\<rparr>
     = (\<lparr>statusCode = 200, body = \<lparr>success = Some True, message = None, data = Some ''summary''\<rparr>\<rparr>,
        \<lparr>isOpen = True, commands_reject = True, store = Map.empty\<rparr>)
   \<and> cacheMiddleware analyticsKeyGenerator 900
       (\<lambda>r. reply 500 False ''Internal server error'' (None :: string option))
       \<lparr>req_user = \<lparr>u_id = 5, u_email = ''e@example.com'', u_name = ''E'', u_role = User\<rparr>,
        params_id = [], req_query = Map.empty, route_path = ''/dashboard'', req_body = (),
        validation_errors = []\<rparr>
       \<lparr>isOpen = True, commands_reject = False, store = Map.empty\<rparr>
     = (reply 500 False ''Internal server error'' None,
        \<lparr>isOpen = True, commands_reject = False, store = Map.empty\<rparr>)"
proof -
  let ?req = "\<lparr>req_user = \<lparr>u_id = 5, u_email = ''e@example.com'', u_name = ''E'', u_role = User\<rparr>,
        params_id = [], req_query = Map.empty, route_path = ''/dashboard'', req_body = (),
        validation_errors = []\<rparr>"
  let ?ok = "\<lambda>r :: unit request. \<lparr>statusCode = 200,
        body = \<lparr>success = Some True, message = None, data = Some ''summary''\<rparr>\<rparr>"
  let ?bad = "\<lambda>r :: unit request. reply 500 False ''Internal server error'' (None :: string option)"
  let ?c = "\<lparr>isOpen = True, commands_reject = False,
             store = (Map.empty :: string \<rightharpoonup> (string json \<times> nat))\<rparr>"
  let ?d = "\<lparr>isOpen = True, commands_reject = True,
             store = (Map.empty :: string \<rightharpoonup> (string json \<times> nat))\<rparr>"
  have k: "analyticsKeyGenerator ?req = ''analytics:5:month''"
    by (simp add: analyticsKeyGenerator_def param_or_def digit_char_def)
  have m1: "getCache (analyticsKeyGenerator ?req) ?c = None"
    by (simp add: getCache_def)
  have m2: "getCache (analyticsKeyGenerator ?req) ?d = None"
    by (simp add: getCache_def)
  have 1: "cacheMiddleware analyticsKeyGenerator 900 ?ok ?req ?c
      = (?ok ?req, ?c\<lparr>store := Map.empty(''analytics:5:month'' \<mapsto> (body (?ok ?req), 900))\<rparr>)"
    using cache_miss_population [where keyGenerator = analyticsKeyGenerator and req = "?req"
        and client = "?c" and expiration = 900 and handler = "?ok", OF m1] k
    by (auto simp: prod_eq_iff intro!: redis.equality)
  have 2: "cacheMiddleware analyticsKeyGenerator 900 ?ok ?req ?d = (?ok ?req, ?d)"
    using cache_miss_population [where keyGenerator = analyticsKeyGenerator and req = "?req"
        and client = "?d" and expiration = 900 and handler = "?ok", OF m2]
    by (auto simp: prod_eq_iff intro!: redis.equality)
  have 3: "cacheMiddleware analyticsKeyGenerator 900 ?bad ?req ?c = (?bad ?req, ?c)"
    using cache_miss_population [where keyGenerator = analyticsKeyGenerator and req = "?req"
        and client = "?c" and expiration = 900 and handler = "?bad", OF m1]
    by (auto simp: prod_eq_iff reply_def intro!: redis.equality)
  from m1 1 2 3 show ?thesis by simp
qed

section \<open>Token verification\<close>

lemma find_filter_case:
  "(case filter P xs of [] \<Rightarrow> a | y # _ \<Rightarrow> f y) = (case find P xs of None \<Rightarrow> a | Some y \<Rightarrow> f y)"
  by (induction xs) auto

lemma js_split_no_separator: "sep \<notin> set w \<Longrightarrow> js_split sep w = [w]"
  by (induction w) auto

lemma js_split_first: "sep \<notin> set w \<Longrightarrow> js_split sep (w @ sep # rest) = w # js_split sep rest"
  by (induction w) auto

lemma header_token_second_word:
  assumes "CHR '' '' \<notin> set w" and "tok \<noteq> []" and "CHR '' '' \<notin> set tok"
  shows "header_token (Some (w @ '' '' @ tok)) = Some tok"
  using assms by (simp add: header_token_def js_split_first js_split_no_separator)

text \<open>
  C9, the claim as stated fails in two ways. The header \<open>Basic good\<close> carries no bearer
  token, and is authenticated all the same, since the word before the token is never
  looked at. A request without the header is answered \<open>Access token is required\<close>, which is
  not a message of the \<open>Invalid\<close> family.
\<close>

theorem authenticateToken_scheme_and_message_counterexample:
  "authenticateToken
     (\<lambda>t. if t = ''good'' then Decoded (Some 1) else if t = ''gone'' then Decoded (Some 9)
           else if t = ''old'' then TokenExpiredError
           else if t = ''early'' then OtherError else JsonWebTokenError)
     (Some ''Basic good'')
     \<lparr>users = [\<lparr>u_id = 1, u_email = ''a@example.com'', u_name = ''A'', u_role = User\<rparr>],
      categories = [], transactions = [], categories_id_seq = 0, transactions_id_seq = 0,
      reads_integer = decimal_integer, accepts_transaction = (\<lambda>b. True),
      accepts_category = (\<lambda>b. True)\<rparr>
     = Authenticated \<lparr>u_id = 1, u_email = ''a@example.com'', u_name = ''A'', u_role = User\<rparr>
   \<and> authenticateToken
     (\<lambda>t. if t = ''good'' then Decoded (Some 1) else if t = ''gone'' then Decoded (Some 9)
           else if t = ''old'' then TokenExpiredError
           else if t = ''early'' then OtherError else JsonWebTokenError)
     None
     \<lparr>users = [\<lparr>u_id = 1, u_email = ''a@example.com'', u_name = ''A'', u_role = User\<rparr>],
      categories = [], transactions = [], categories_id_seq = 0, transactions_id_seq = 0,
      reads_integer = decimal_integer, accepts_transaction = (\<lambda>b. True),
      accepts_category = (\<lambda>b. True)\<rparr>
     = Rejected \<lparr>statusCode = 401,
                 body = \<lparr>success = Some False, message = Some ''Access token is required'',
                         data = None\<rparr>\<rparr>"
  by (simp add: authenticateToken_def header_token_def reply_def)

text \<open>
  C9, amended: the token is the second of the fields of the \<open>Authorization\<close> header that
  single spaces separate, whatever the first field is (\<open>Bearer\<close> or any other word), and it
  is missing when the header is absent or that field is absent or empty.
  \<open>authenticateToken\<close> attaches the user exactly when the token is there, \<open>verify\<close> returns
  its payload (the signature is valid and the token has not expired) and the \<open>userId\<close> of
  the payload is that of a row of the users table, which is the user attached. A missing
  token is answered 401 \<open>Access token is required\<close>, a malformed or unsigned one 401
  \<open>Invalid token\<close>, a validly signed token past its expiry 401 \<open>Token expired\<close>, a payload
  whose user is in no row 401 \<open>Invalid token - user not found\<close>, and any other error
  thrown by the verification 500 \<open>Authentication failed\<close>.
\<close>

theorem authenticateToken_outcomes:
  "(authenticateToken verify authHeader db = Authenticated u \<longleftrightarrow>
      (\<exists>token userId. header_token authHeader = Some token \<and> verify token = Decoded (Some userId)
         \<and> find (\<lambda>r. u_id r = userId) (users db) = Some u))
   \<and> (header_token authHeader = None \<longrightarrow>
        authenticateToken verify authHeader db
          = Rejected (reply 401 False ''Access token is required'' None))
   \<and> (\<forall>token. header_token authHeader = Some token \<and> verify token = JsonWebTokenError \<longrightarrow>
        authenticateToken verify authHeader db = Rejected (reply 401 False ''Invalid token'' None))
   \<and> (\<forall>token. header_token authHeader = Some token \<and> verify token = TokenExpiredError \<longrightarrow>
        authenticateToken verify authHeader db = Rejected (reply 401 False ''Token expired'' None))
   \<and> (\<forall>token userId. header_token authHeader = Some token \<and> verify token = Decoded userId
          \<and> (\<forall>r \<in> set (users db). Some (u_id r) \<noteq> userId) \<longrightarrow>
        authenticateToken verify authHeader db
          = Rejected (reply 401 False ''Invalid token - user not found'' None))
   \<and> (\<forall>token. header_token authHeader = Some token \<and> verify token = OtherError \<longrightarrow>
        authenticateToken verify authHeader db
          = Rejected (reply 500 False ''Authentication failed'' None))
   \<and> header_token None = None
   \<and> (\<forall>w tok. CHR '' '' \<notin> set w \<and> tok \<noteq> [] \<and> CHR '' '' \<notin> set tok \<longrightarrow>
        header_token (Some (w @ '' '' @ tok)) = Some tok)
   \<and> (\<forall>w. CHR '' '' \<notin> set w \<longrightarrow> header_token (Some w) = None)
   \<and> (\<forall>w rest. CHR '' '' \<notin> set w \<longrightarrow> header_token (Some (w @ ''  '' @ rest)) = None)"
proof -
  have same: "\<And>userId. (\<lambda>r. Some (u_id r) = Some userId) = (\<lambda>r. u_id r = userId)"
    by auto
  have none: "\<And>userId. filter (\<lambda>r. Some (u_id r) = userId) (users db) = []
      \<longleftrightarrow> (\<forall>r \<in> set (users db). Some (u_id r) \<noteq> userId)"
    by (auto simp: filter_empty_conv)
  have ok: "authenticateToken verify authHeader db = Authenticated u \<longleftrightarrow>
      (\<exists>token userId. header_token authHeader = Some token \<and> verify token = Decoded (Some userId)
         \<and> find (\<lambda>r. u_id r = userId) (users db) = Some u)"
  proof (cases "header_token authHeader")
    case None
    then show ?thesis by (simp add: authenticateToken_def)
  next
    case (Some token)
    show ?thesis
    proof (cases "verify token")
      case (Decoded userId)
      show ?thesis
      proof (cases userId)
        case None
        have "filter (\<lambda>r. Some (u_id r) = None) (users db) = []"
          by (simp add: filter_empty_conv)
        with Some Decoded None show ?thesis
          by (simp add: authenticateToken_def)
      next
        case (Some uid)
        with \<open>header_token authHeader = Some token\<close> Decoded show ?thesis
          by (simp add: authenticateToken_def same find_filter_case split: option.splits)
      qed
    qed (use Some in \<open>simp_all add: authenticateToken_def\<close>)
  qed
  have missing: "header_token authHeader = None \<longrightarrow>
        authenticateToken verify authHeader db
          = Rejected (reply 401 False ''Access token is required'' None)"
    by (simp add: authenticateToken_def)
  have invalid: "\<forall>token. header_token authHeader = Some token \<and> verify token = JsonWebTokenError \<longrightarrow>
        authenticateToken verify authHeader db = Rejected (reply 401 False ''Invalid token'' None)"
    by (simp add: authenticateToken_def)
  have expired: "\<forall>token. header_token authHeader = Some token \<and> verify token = TokenExpiredError \<longrightarrow>
        authenticateToken verify authHeader db = Rejected (reply 401 False ''Token expired'' None)"
    by (simp add: authenticateToken_def)
  have deleted: "\<forall>token userId. header_token authHeader = Some token \<and> verify token = Decoded userId
          \<and> (\<forall>r \<in> set (users db). Some (u_id r) \<noteq> userId) \<longrightarrow>
        authenticateToken verify authHeader db
          = Rejected (reply 401 False ''Invalid token - user not found'' None)"
  proof (intro allI impI)
    fix token userId
    assume a: "header_token authHeader = Some token \<and> verify token = Decoded userId
          \<and> (\<forall>r \<in> set (users db). Some (u_id r) \<noteq> userId)"
    then have "filter (\<lambda>r. Some (u_id r) = userId) (users db) = []"
      using none by blast
    with a show "authenticateToken verify authHeader db
          = Rejected (reply 401 False ''Invalid token - user not found'' None)"
      by (simp add: authenticateToken_def)
  qed
  have other: "\<forall>token. header_token authHeader = Some token \<and> verify token = OtherError \<longrightarrow>
        authenticateToken verify authHeader db
          = Rejected (reply 500 False ''Authentication failed'' None)"
    by (simp add: authenticateToken_def)
  have absent: "header_token None = None"
    by (simp add: header_token_def)
  have second: "\<forall>w tok. CHR '' '' \<notin> set w \<and> tok \<noteq> [] \<and> CHR '' '' \<notin> set tok \<longrightarrow>
        header_token (Some (w @ '' '' @ tok)) = Some tok"
    using header_token_second_word by blast
  have one: "\<forall>w. CHR '' '' \<notin> set w \<longrightarrow> header_token (Some w) = None"
    by (simp add: header_token_def js_split_no_separator)
  have two: "\<forall>w rest. CHR '' '' \<notin> set w \<longrightarrow> header_token (Some (w @ ''  '' @ rest)) = None"
    by (simp add: header_token_def js_split_first)
  from ok missing invalid expired deleted other absent second one two show ?thesis
    by blast
qed

text \<open>
  The hypotheses of C9 hold for a users table with the one user 1 and a \<open>verify\<close> that
  accepts the token \<open>good\<close> of user 1 and the token \<open>gone\<close> of the deleted user 9, finds
  \<open>old\<close> expired, throws another error on \<open>early\<close> and rejects everything else.
\<close>

theorem authenticateToken_outcomes_witness:
  "authenticateToken
     (\<lambda>t. if t = ''good'' then Decoded (Some 1) else if t = ''gone'' then Decoded (Some 9)
           else if t = ''old'' then TokenExpiredError
           else if t = ''early'' then OtherError else JsonWebTokenError)
     (Some ''Bearer good'')
     \<lparr>users = [\<lparr>u_id = 1, u_email = ''a@example.com'', u_name = ''A'', u_role = User\<rparr>],
      categories = [], transactions = [], categories_id_seq = 0, transactions_id_seq = 0,
      reads_integer = decimal_integer, accepts_transaction = (\<lambda>b. True),
      accepts_category = (\<lambda>b. True)\<rparr>
     = Authenticated \<lparr>u_id = 1, u_email = ''a@example.com'', u_name = ''A'', u_role = User\<rparr>
   \<and> authenticateToken
     (\<lambda>t. if t = ''good'' then Decoded (Some 1) else if t = ''gone'' then Decoded (Some 9)
           else if t = ''old'' then TokenExpiredError
           else if t = ''early'' then OtherError else JsonWebTokenError)
     None
     \<lparr>users = [\<lparr>u_id = 1, u_email = ''a@example.com'', u_name = ''A'', u_role = User\<rparr>],
      categories = [], transactions = [], categories_id_seq = 0, transactions_id_seq = 0,
      reads_integer = decimal_integer, accepts_transaction = (\<lambda>b. True),
      accepts_category = (\<lambda>b. True)\<rparr>
     = Rejected (reply 401 False ''Access token is required'' None)
   \<and> authenticateToken
     (\<lambda>t. if t = ''good'' then Decoded (Some 1) else if t = ''gone'' then Decoded (Some 9)
           else if t = ''old'' then TokenExpiredError
           else if t = ''early'' then OtherError else JsonWebTokenError)
     (Some ''Bearer forged'')
     \<lparr>users = [\<lparr>u_id = 1, u_email = ''a@example.com'', u_name = ''A'', u_role = User\<rparr>],
      categories = [], transactions = [], categories_id_seq = 0, transactions_id_seq = 0,
      reads_integer = decimal_integer, accepts_transaction = (\<lambda>b. True),
      accepts_category = (\<lambda>b. True)\<rparr>
     = Rejected (reply 401 False ''Invalid token'' None)
   \<and> authenticateToken
     (\<lambda>t. if t = ''good'' then Decoded (Some 1) else if t = ''gone'' then Decoded (Some 9)
           else if t = ''old'' then TokenExpiredError
           else if t = ''early'' then OtherError else JsonWebTokenError)
     (Some ''Bearer old'')
     \<lparr>users = [\<lparr>u_id = 1, u_email = ''a@example.com'', u_name = ''A'', u_role = User\<rparr>],
      categories = [], transactions = [], categories_id_seq = 0, transactions_id_seq = 0,
      reads_integer = decimal_integer, accepts_transaction = (\<lambda>b. True),
      accepts_category = (\<lambda>b. True)\<rparr>
     = Rejected (reply 401 False ''Token expired'' None)
   \<and> authenticateToken
     (\<lambda>t. if t = ''good'' then Decoded (Some 1) else if t = ''gone'' then Decoded (Some 9)
           else if t = ''old'' then TokenExpiredError
           else if t = ''early'' then OtherError else JsonWebTokenError)
     (Some ''Bearer gone'')
     \<lparr>users = [\<lparr>u_id = 1, u_email = ''a@example.com'', u_name = ''A'', u_role = User\<rparr>],
      categories = [], transactions = [], categories_id_seq = 0, transactions_id_seq = 0,
      reads_integer = decimal_integer, accepts_transaction = (\<lambda>b. True),
      accepts_category = (\<lambda>b. True)\<rparr>
     = Rejected (reply 401 False ''Invalid token - user not found'' None)
   \<and> authenticateToken
     (\<lambda>t. if t = ''good'' then Decoded (Some 1) else if t = ''gone'' then Decoded (Some 9)
           else if t = ''old'' then TokenExpiredError
           else if t = ''early'' then OtherError else JsonWebTokenError)
     (Some ''Bearer early'')
     \<lparr>users = [\<lparr>u_id = 1, u_email = ''a@example.com'', u_name = ''A'', u_role = User\<rparr>],
      categories = [], transactions = [], categories_id_seq = 0, transactions_id_seq = 0,
      reads_integer = decimal_integer, accepts_transaction = (\<lambda>b. True),
      accepts_category = (\<lambda>b. True)\<rparr>
     = Rejected (reply 500 False ''Authentication failed'' None)
   \<and> header_token (Some ''Basic good'') = Some ''good''
   \<and> header_token (Some ''Bearer'') = None
   \<and> header_token (Some ''Bearer  good'') = None"
proof -
  let ?v = "(\<lambda>t. if t = ''good'' then Decoded (Some 1) else if t = ''gone'' then Decoded (Some 9)
           else if t = ''old'' then TokenExpiredError
           else if t = ''early'' then OtherError else JsonWebTokenError)"
  let ?u = "\<lparr>u_id = 1, u_email = ''a@example.com'', u_name = ''A'', u_role = User\<rparr>"
  let ?db = "\<lparr>users = [\<lparr>u_id = 1, u_email = ''a@example.com'', u_name = ''A'', u_role = User\<rparr>],
      categories = [], transactions = [], categories_id_seq = 0, transactions_id_seq = 0,
      reads_integer = decimal_integer, accepts_transaction = (\<lambda>b. True),
      accepts_category = (\<lambda>b. True)\<rparr>"
  have t: "header_token (Some ''Bearer good'') = Some ''good''"
    "header_token (Some ''Bearer forged'') = Some ''forged''"
    "header_token (Some ''Bearer old'') = Some ''old''"
    "header_token (Some ''Bearer gone'') = Some ''gone''"
    "header_token (Some ''Bearer early'') = Some ''early''"
    "header_token None = None"
    by (simp_all add: header_token_def)
  have 1: "authenticateToken ?v (Some ''Bearer good'') ?db = Authenticated ?u"
    using authenticateToken_outcomes [of ?v "Some ''Bearer good''" ?db ?u] t by simp
  have 2: "authenticateToken ?v None ?db = Rejected (reply 401 False ''Access token is required'' None)"
    using authenticateToken_outcomes [of ?v None ?db ?u] t by simp
  have 3: "authenticateToken ?v (Some ''Bearer forged'') ?db = Rejected (reply 401 False ''Invalid token'' None)"
    using authenticateToken_outcomes [of ?v "Some ''Bearer forged''" ?db ?u] t by simp
  have 4: "authenticateToken ?v (Some ''Bearer old'') ?db = Rejected (reply 401 False ''Token expired'' None)"
    using authenticateToken_outcomes [of ?v "Some ''Bearer old''" ?db ?u] t by simp
  have 5: "authenticateToken ?v (Some ''Bearer gone'') ?db
      = Rejected (reply 401 False ''Invalid token - user not found'' None)"
    using authenticateToken_outcomes [of ?v "Some ''Bearer gone''" ?db ?u] t by simp
  have 6: "authenticateToken ?v (Some ''Bearer early'') ?db
      = Rejected (reply 500 False ''Authentication failed'' None)"
    using authenticateToken_outcomes [of ?v "Some ''Bearer early''" ?db ?u] t by simp
  have h: "\<forall>w tok. CHR '' '' \<notin> set w \<and> tok \<noteq> [] \<and> CHR '' '' \<notin> set tok \<longrightarrow>
        header_token (Some (w @ '' '' @ tok)) = Some tok"
    "\<forall>w. CHR '' '' \<notin> set w \<longrightarrow> header_token (Some w) = None"
    "\<forall>w rest. CHR '' '' \<notin> set w \<longrightarrow> header_token (Some (w @ ''  '' @ rest)) = None"
    using authenticateToken_outcomes [of ?v None ?db ?u] by blast+
  have 7: "header_token (Some ''Basic good'') = Some ''good''"
    using h(1) [rule_format, of "''Basic''" "''good''"] by simp
  have 8: "header_token (Some ''Bearer'') = None"
    using h(2) [rule_format, of "''Bearer''"] by simp
  have 9: "header_token (Some ''Bearer  good'') = None"
    using h(3) [rule_format, of "''Bearer''" "''good''"] by simp
  from 1 2 3 4 5 6 7 8 9 show ?thesis by simp
qed

section \<open>Update and delete by a caller who does not own the row\<close>

lemma select_transaction_non_admin:
  "u_role u \<noteq> Admin \<Longrightarrow> u_id u \<noteq> 0 \<Longrightarrow>
   select_transaction i u db
     = filter (\<lambda>t. int (t_id t) = i \<and> t_user_id t = u_id u) (transactions db)"
  by (simp add: select_transaction_def owner_filter_def)

text \<open>
  C4, the claim as stated (whenever no row matches the identifier and the caller, the handler
  responds 404) fails for an update whose body does not pass validation: user 2 sends
  \<open>PUT /api/transactions/7\<close> with the amount 0, transaction 7 belongs to user 1, no row
  matches the filter, and the response is 400 \<open>Validation failed\<close>.
\<close>

theorem update_invalid_body_counterexample:
  "select_transaction 7
     \<lparr>u_id = 2, u_email = ''b@example.com'', u_name = ''B'', u_role = User\<rparr>
     \<lparr>users = [], categories = [],
      transactions = [\<lparr>t_id = 7, t_user_id = 1, t_category_id = 1, t_amount = 10,
                       t_description = ''rent'', t_type = ''expense'', t_date = ''2024-01-15''\<rparr>],
      categories_id_seq = 1, transactions_id_seq = 7,
      reads_integer = decimal_integer, accepts_transaction = (\<lambda>b. True),
      accepts_category = (\<lambda>b. True)\<rparr> = []
   \<and> fst (updateTransaction
     \<lparr>req_user = \<lparr>u_id = 2, u_email = ''b@example.com'', u_name = ''B'', u_role = User\<rparr>,
      params_id = ''7'', req_query = Map.empty, route_path = ''/:id'',
      req_body = \<lparr>b_amount = 0, b_description = ''rent'', b_type = ''expense'',
                  b_category_id = ''1'', b_date = ''2024-01-15''\<rparr>,
      validation_errors = [''Amount must be a positive number'']\<rparr>
     \<lparr>users = [], categories = [],
      transactions = [\<lparr>t_id = 7, t_user_id = 1, t_category_id = 1, t_amount = 10,
                       t_description = ''rent'', t_type = ''expense'', t_date = ''2024-01-15''\<rparr>],
      categories_id_seq = 1, transactions_id_seq = 7,
      reads_integer = decimal_integer, accepts_transaction = (\<lambda>b. True),
      accepts_category = (\<lambda>b. True)\<rparr>)
     = \<lparr>statusCode = 400,
        body = \<lparr>success = Some False, message = Some ''Validation failed'', data = None\<rparr>\<rparr>"
  by (simp add: select_transaction_def owner_filter_def updateTransaction_def reply_def)

text \<open>
  C4, amended: for a non-admin caller (whose identifier, issued by the users sequence, is
  not 0), when no transaction row has both the requested identifier and the caller as its
  owner, whether the row is absent or belongs to another user, the handlers write nothing
  and answer as follows. \<open>deleteTransaction\<close> responds 404 \<open>Transaction not found\<close>, or 500
  \<open>Internal server error\<close> when the server does not read the \<open>:id\<close> of the path as an
  integer (the re-select throws). \<open>updateTransaction\<close> responds 400 \<open>Validation failed\<close>,
  before the row is looked up, for a body that did not pass validation, and otherwise 404
  or 500 as \<open>deleteTransaction\<close> does. In each case the response is the same whether or
  not another user's row exists.
\<close>

theorem mutation_of_unowned_row:
  "(u_role (req_user del) \<noteq> Admin \<and> u_id (req_user del) \<noteq> 0
      \<and> filter (\<lambda>t. Some (int (t_id t)) = reads_integer db (params_id del)
                     \<and> t_user_id t = u_id (req_user del))
            (transactions db) = []
    \<longrightarrow> deleteTransaction del db
          = (if reads_integer db (params_id del) = None
             then reply 500 False ''Internal server error'' None
             else reply 404 False ''Transaction not found'' None, db))
   \<and> (u_role (req_user upd) \<noteq> Admin \<and> u_id (req_user upd) \<noteq> 0
      \<and> filter (\<lambda>t. Some (int (t_id t)) = reads_integer db (params_id upd)
                     \<and> t_user_id t = u_id (req_user upd))
            (transactions db) = []
    \<longrightarrow> updateTransaction upd db
          = (if validation_errors upd \<noteq> [] then reply 400 False ''Validation failed'' None
             else if reads_integer db (params_id upd) = None
             then reply 500 False ''Internal server error'' None
             else reply 404 False ''Transaction not found'' None, db))"
proof (intro conjI impI)
  assume a: "u_role (req_user del) \<noteq> Admin \<and> u_id (req_user del) \<noteq> 0
      \<and> filter (\<lambda>t. Some (int (t_id t)) = reads_integer db (params_id del)
                     \<and> t_user_id t = u_id (req_user del))
            (transactions db) = []"
  show "deleteTransaction del db
          = (if reads_integer db (params_id del) = None
             then reply 500 False ''Internal server error'' None
             else reply 404 False ''Transaction not found'' None, db)"
  proof (cases "reads_integer db (params_id del)")
    case None
    then show ?thesis by (simp add: deleteTransaction_def internal_error_def)
  next
    case (Some i)
    with a have "select_transaction i (req_user del) db = []"
      by (simp add: select_transaction_non_admin)
    with Some show ?thesis by (simp add: deleteTransaction_def)
  qed
next
  assume a: "u_role (req_user upd) \<noteq> Admin \<and> u_id (req_user upd) \<noteq> 0
      \<and> filter (\<lambda>t. Some (int (t_id t)) = reads_integer db (params_id upd)
                     \<and> t_user_id t = u_id (req_user upd))
            (transactions db) = []"
  show "updateTransaction upd db
          = (if validation_errors upd \<noteq> [] then reply 400 False ''Validation failed'' None
             else if reads_integer db (params_id upd) = None
             then reply 500 False ''Internal server error'' None
             else reply 404 False ''Transaction not found'' None, db)"
  proof (cases "reads_integer db (params_id upd)")
    case None
    then show ?thesis by (simp add: updateTransaction_def internal_error_def)
  next
    case (Some i)
    with a have "select_transaction i (req_user upd) db = []"
      by (simp add: select_transaction_non_admin)
    with Some show ?thesis by (simp add: updateTransaction_def)
  qed
qed

text \<open>
  The hypotheses of C4 hold for user 2 and transaction 7 of user 1: delete and a valid
  update are both answered 404 and the row stays; on the path \<open>/abc\<close> both are answered
  500.
\<close>

theorem mutation_of_unowned_row_witness:
  "deleteTransaction
     \<lparr>req_user = \<lparr>u_id = 2, u_email = ''b@example.com'', u_name = ''B'', u_role = User\<rparr>,
      params_id = ''7'', req_query = Map.empty, route_path = ''/:id'', req_body = (),
      validation_errors = []\<rparr>
     \<lparr>users = [], categories = [],
      transactions = [\<lparr>t_id = 7, t_user_id = 1, t_category_id = 1, t_amount = 10,
                       t_description = ''rent'', t_type = ''expense'', t_date = ''2024-01-15''\<rparr>],
      categories_id_seq = 1, transactions_id_seq = 7,
      reads_integer = decimal_integer, accepts_transaction = (\<lambda>b. True),
      accepts_category = (\<lambda>b. True)\<rparr>
     = (reply 404 False ''Transaction not found'' None,
        \<lparr>users = [], categories = [],
      transactions = [\<lparr>t_id = 7, t_user_id = 1, t_category_id = 1, t_amount = 10,
                       t_description = ''rent'', t_type = ''expense'', t_date = ''2024-01-15''\<rparr>],
      categories_id_seq = 1, transactions_id_seq = 7,
      reads_integer = decimal_integer, accepts_transaction = (\<lambda>b. True),
      accepts_category = (\<lambda>b. True)\<rparr>)
   \<and> updateTransaction
     \<lparr>req_user = \<lparr>u_id = 2, u_email = ''b@example.com'', u_name = ''B'', u_role = User\<rparr>,
      params_id = ''7'', req_query = Map.empty, route_path = ''/:id'',
      req_body = \<lparr>b_amount = 5, b_description = ''rent'', b_type = ''expense'',
                  b_category_id = ''1'', b_date = ''2024-01-15''\<rparr>,
      validation_errors = []\<rparr>
     \<lparr>users = [], categories = [],
      transactions = [\<lparr>t_id = 7, t_user_id = 1, t_category_id = 1, t_amount = 10,
                       t_description = ''rent'', t_type = ''expense'', t_date = ''2024-01-15''\<rparr>],
      categories_id_seq = 1, transactions_id_seq = 7,
      reads_integer = decimal_integer, accepts_transaction = (\<lambda>b. True),
      accepts_category = (\<lambda>b. True)\<rparr>
     = (reply 404 False ''Transaction not found'' None,
        \<lparr>users = [], categories = [],
      transactions = [\<lparr>t_id = 7, t_user_id = 1, t_category_id = 1, t_amount = 10,
                       t_description = ''rent'', t_type = ''expense'', t_date = ''2024-01-15''\<rparr>],
      categories_id_seq = 1, transactions_id_seq = 7,
      reads_integer = decimal_integer, accepts_transaction = (\<lambda>b. True),
      accepts_category = (\<lambda>b. True)\<rparr>)
   \<and> deleteTransaction
     \<lparr>req_user = \<lparr>u_id = 2, u_email = ''b@example.com'', u_name = ''B'', u_role = User\<rparr>,
      params_id = ''abc'', req_query = Map.empty, route_path = ''/:id'', req_body = (),
      validation_errors = []\<rparr>
     \<lparr>users = [], categories = [],
      transactions = [\<lparr>t_id = 7, t_user_id = 1, t_category_id = 1, t_amount = 10,
                       t_description = ''rent'', t_type = ''expense'', t_date = ''2024-01-15''\<rparr>],
      categories_id_seq = 1, transactions_id_seq = 7,
      reads_integer = decimal_integer, accepts_transaction = (\<lambda>b. True),
      accepts_category = (\<lambda>b. True)\<rparr>
     = (reply 500 False ''Internal server error'' None,
        \<lparr>users = [], categories = [],
      transactions = [\<lparr>t_id = 7, t_user_id = 1, t_category_id = 1, t_amount = 10,
                       t_description = ''rent'', t_type = ''expense'', t_date = ''2024-01-15''\<rparr>],
      categories_id_seq = 1, transactions_id_seq = 7,
      reads_integer = decimal_integer, accepts_transaction = (\<lambda>b. True),
      accepts_category = (\<lambda>b. True)\<rparr>)
   \<and> updateTransaction
     \<lparr>req_user = \<lparr>u_id = 2, u_email = ''b@example.com'', u_name = ''B'', u_role = User\<rparr>,
      params_id = ''abc'', req_query = Map.empty, route_path = ''/:id'',
      req_body = \<lparr>b_amount = 5, b_description = ''rent'', b_type = ''expense'',
                  b_category_id = ''1'', b_date = ''2024-01-15''\<rparr>,
      validation_errors = []\<rparr>
     \<lparr>users = [], categories = [],
      transactions = [\<lparr>t_id = 7, t_user_id = 1, t_category_id = 1, t_amount = 10,
                       t_description = ''rent'', t_type = ''expense'', t_date = ''2024-01-15''\<rparr>],
      categories_id_seq = 1, transactions_id_seq = 7,
      reads_integer = decimal_integer, accepts_transaction = (\<lambda>b. True),
      accepts_category = (\<lambda>b. True)\<rparr>
     = (reply 500 False ''Internal server error'' None,
        \<lparr>users = [], categories = [],
      transactions = [\<lparr>t_id = 7, t_user_id = 1, t_category_id = 1, t_amount = 10,
                       t_description = ''rent'', t_type = ''expense'', t_date = ''2024-01-15''\<rparr>],
      categories_id_seq = 1, transactions_id_seq = 7,
      reads_integer = decimal_integer, accepts_transaction = (\<lambda>b. True),
      accepts_category = (\<lambda>b. True)\<rparr>)"
proof -
  let ?db = "\<lparr>users = [], categories = [],
      transactions = [\<lparr>t_id = 7, t_user_id = 1, t_category_id = 1, t_amount = 10,
                       t_description = ''rent'', t_type = ''expense'', t_date = ''2024-01-15''\<rparr>],
      categories_id_seq = 1, transactions_id_seq = 7,
      reads_integer = decimal_integer, accepts_transaction = (\<lambda>b. True),
      accepts_category = (\<lambda>b. True)\<rparr>"
  let ?del = "\<lparr>req_user = \<lparr>u_id = 2, u_email = ''b@example.com'', u_name = ''B'', u_role = User\<rparr>,
      params_id = ''7'', req_query = Map.empty, route_path = ''/:id'', req_body = (),
      validation_errors = []\<rparr>"
  let ?upd = "\<lparr>req_user = \<lparr>u_id = 2, u_email = ''b@example.com'', u_name = ''B'', u_role = User\<rparr>,
      params_id = ''7'', req_query = Map.empty, route_path = ''/:id'',
      req_body = \<lparr>b_amount = 5, b_description = ''rent'', b_type = ''expense'',
                  b_category_id = ''1'', b_date = ''2024-01-15''\<rparr>,
      validation_errors = []\<rparr>"
  let ?delx = "\<lparr>req_user = \<lparr>u_id = 2, u_email = ''b@example.com'', u_name = ''B'', u_role = User\<rparr>,
      params_id = ''abc'', req_query = Map.empty, route_path = ''/:id'', req_body = (),
      validation_errors = []\<rparr>"
  let ?updx = "\<lparr>req_user = \<lparr>u_id = 2, u_email = ''b@example.com'', u_name = ''B'', u_role = User\<rparr>,
      params_id = ''abc'', req_query = Map.empty, route_path = ''/:id'',
      req_body = \<lparr>b_amount = 5, b_description = ''rent'', b_type = ''expense'',
                  b_category_id = ''1'', b_date = ''2024-01-15''\<rparr>,
      validation_errors = []\<rparr>"
  have r: "reads_integer ?db ''7'' = Some 7" "reads_integer ?db ''abc'' = None"
    by (simp_all add: decimal_eval)
  have 1: "deleteTransaction ?del ?db = (reply 404 False ''Transaction not found'' None, ?db)
      \<and> updateTransaction ?upd ?db = (reply 404 False ''Transaction not found'' None, ?db)"
    using mutation_of_unowned_row [of ?del ?db ?upd] r by simp
  have 2: "deleteTransaction ?delx ?db = (reply 500 False ''Internal server error'' None, ?db)
      \<and> updateTransaction ?updx ?db = (reply 500 False ''Internal server error'' None, ?db)"
    using mutation_of_unowned_row [of ?delx ?db ?updx] r by simp
  from 1 2 show ?thesis by simp
qed

section \<open>Decimal strings and key patterns\<close>

lemma glob_star: "glob ''*'' k"
  by (induction k) auto

lemma glob_literal_star:
  "CHR ''*'' \<notin> set lit \<Longrightarrow> glob (lit @ ''*'') k \<longleftrightarrow> prefix lit k"
proof (induction lit arbitrary: k)
  case Nil
  then show ?case using glob_star by simp
next
  case (Cons p ps)
  then show ?case by (cases k) auto
qed

lemma digit_char_in_digits: "d < 10 \<Longrightarrow> digit_char d \<in> set ''0123456789''"
  unfolding digit_char_def by (rule nth_mem) simp

lemma digit_char_inj: "d < 10 \<Longrightarrow> e < 10 \<Longrightarrow> digit_char d = digit_char e \<Longrightarrow> d = e"
  unfolding digit_char_def by (subst (asm) nth_eq_iff_index_eq) simp_all

lemma string_of_nat_digits: "set (string_of_nat n) \<subseteq> set ''0123456789''"
proof (induction n rule: string_of_nat.induct)
  case (1 n)
  show ?case
  proof (cases "n < 10")
    case True
    then show ?thesis
      using digit_char_in_digits [of n] by (subst string_of_nat.simps) simp
  next
    case False
    then show ?thesis
      using 1 digit_char_in_digits [of "n mod 10"] by (subst string_of_nat.simps) simp
  qed
qed

lemma string_of_nat_no_star: "CHR ''*'' \<notin> set (string_of_nat n)"
  using string_of_nat_digits [of n] by auto

lemma string_of_nat_no_colon: "CHR '':'' \<notin> set (string_of_nat n)"
  using string_of_nat_digits [of n] by auto

lemma string_of_nat_not_Nil: "string_of_nat n \<noteq> []"
  by (subst string_of_nat.simps) simp

lemma string_of_nat_inj: "string_of_nat a = string_of_nat b \<Longrightarrow> a = b"
proof (induction a arbitrary: b rule: string_of_nat.induct)
  case (1 a)
  show ?case
  proof (cases "a < 10")
    case small_a: True
    show ?thesis
    proof (cases "b < 10")
      case True
      with small_a "1.prems" show ?thesis
        by (simp add: string_of_nat.simps [of a] string_of_nat.simps [of b] digit_char_inj)
    next
      case False
      with small_a "1.prems" string_of_nat_not_Nil [of "b div 10"] show ?thesis
        by (simp add: string_of_nat.simps [of a] string_of_nat.simps [of b] Cons_eq_append_conv)
    qed
  next
    case big_a: False
    show ?thesis
    proof (cases "b < 10")
      case True
      with big_a "1.prems" string_of_nat_not_Nil [of "a div 10"] show ?thesis
        by (simp add: string_of_nat.simps [of a] string_of_nat.simps [of b] append_eq_Cons_conv)
    next
      case False
      with big_a "1.prems" have eq: "string_of_nat (a div 10) = string_of_nat (b div 10)"
        and d: "digit_char (a mod 10) = digit_char (b mod 10)"
        by (simp_all add: string_of_nat.simps [of a] string_of_nat.simps [of b])
      from "1.IH" [OF big_a eq] have "a div 10 = b div 10" .
      moreover from d have "a mod 10 = b mod 10"
        by (simp add: digit_char_inj)
      ultimately show ?thesis
        by (metis div_mult_mod_eq)
    qed
  qed
qed

lemma terminated_prefix_eq:
  assumes "prefix (xs @ [c]) (ys @ [c])" and "c \<notin> set xs" and "c \<notin> set ys"
  shows "xs = ys"
proof -
  from assms(1) obtain r where r: "ys @ [c] = xs @ [c] @ r"
    by (auto simp: prefix_def)
  show ?thesis
  proof (cases r rule: rev_cases)
    case Nil
    with r show ?thesis by simp
  next
    case (snoc r' x)
    with r have "ys = xs @ [c] @ r'" by simp
    with assms(3) show ?thesis by simp
  qed
qed

lemma namespace_prefix_same_user:
  assumes "prefix (p @ string_of_nat a @ '':'') k" and "prefix (p @ string_of_nat b @ '':'') k"
  shows "a = b"
proof -
  from assms have "prefix (p @ string_of_nat a @ '':'') (p @ string_of_nat b @ '':'')
      \<or> prefix (p @ string_of_nat b @ '':'') (p @ string_of_nat a @ '':'')"
    using prefix_same_cases by blast
  then have "prefix (string_of_nat a @ '':'') (string_of_nat b @ '':'')
      \<or> prefix (string_of_nat b @ '':'') (string_of_nat a @ '':'')"
    by simp
  then have "string_of_nat a = string_of_nat b"
    using terminated_prefix_eq [of "string_of_nat a" "CHR '':''" "string_of_nat b"]
      terminated_prefix_eq [of "string_of_nat b" "CHR '':''" "string_of_nat a"]
      string_of_nat_no_colon
    by auto
  then show ?thesis by (rule string_of_nat_inj)
qed


section \<open>Invalidation after a transaction mutation\<close>

lemma deleteCachePattern_literal:
  "CHR ''*'' \<notin> set lit \<Longrightarrow>
   snd (deleteCachePattern (lit @ ''*'') client)
     = (if isOpen client \<and> \<not> commands_reject client
        then client\<lparr>store := (\<lambda>k. if prefix lit k then None else store client k)\<rparr>
        else client)"
  by (simp add: deleteCachePattern_def glob_literal_star)

lemma invalidateUserCache_store:
  "store (invalidateUserCache userId client) k
     = (if isOpen client \<and> \<not> commands_reject client \<and> user_namespace userId k then None
        else store client k)"
proof -
  have a: "CHR ''*'' \<notin> set (''analytics:'' @ string_of_nat userId @ '':'')"
    and t: "CHR ''*'' \<notin> set (''transactions:'' @ string_of_nat userId @ '':'')"
    and u: "CHR ''*'' \<notin> set (''user_analytics:'' @ string_of_nat userId)"
    using string_of_nat_no_star [of userId] by simp_all
  have pa: "''analytics:'' @ string_of_nat userId @ '':*''
      = (''analytics:'' @ string_of_nat userId @ '':'') @ ''*''"
    and pt: "''transactions:'' @ string_of_nat userId @ '':*''
      = (''transactions:'' @ string_of_nat userId @ '':'') @ ''*''"
    and pu: "''user_analytics:'' @ string_of_nat userId @ ''*''
      = (''user_analytics:'' @ string_of_nat userId) @ ''*''"
    by simp_all
  show ?thesis
    unfolding invalidateUserCache_def Let_def pa pt pu
    by (simp only: deleteCachePattern_literal [OF a] deleteCachePattern_literal [OF t]
        deleteCachePattern_literal [OF u])
      (simp add: user_namespace_def)
qed

text \<open>
  What an invalidation does to an entry: it stays, or it is under the caller's patterns and
  is gone.
\<close>

lemma invalidateUserCacheAfterTransaction_store:
  "store (snd (snd (invalidateUserCacheAfterTransaction handler req db client))) k
     = store client k
   \<or> (user_namespace (u_id (req_user req)) k
      \<and> store (snd (snd (invalidateUserCacheAfterTransaction handler req db client))) k = None)"
  by (simp add: invalidateUserCacheAfterTransaction_def invalidateCacheAfterModification_def
      invalidateUserCache_store split: prod.splits)

lemma router_put_id_store:
  "store (snd (snd (router_put_id upd db client))) k = store client k
   \<or> (user_namespace (u_id (req_user upd)) k
      \<and> store (snd (snd (router_put_id upd db client))) k = None)"
  using invalidateUserCacheAfterTransaction_store
    [of updateTransaction "upd\<lparr>route_path := ''/:id''\<rparr>" db client k]
  by (simp add: router_put_id_def Let_def split: gate.splits)

lemma router_delete_id_store:
  "store (snd (snd (router_delete_id del db client))) k = store client k
   \<or> (user_namespace (u_id (req_user del)) k
      \<and> store (snd (snd (router_delete_id del db client))) k = None)"
  using invalidateUserCacheAfterTransaction_store
    [of deleteTransaction "del\<lparr>route_path := ''/:id''\<rparr>" db client k]
  by (simp add: router_delete_id_def Let_def split: gate.splits)

lemma other_user_lists_outside_namespace:
  assumes "owner \<noteq> userId"
    and "prefix (''analytics:'' @ string_of_nat owner @ '':'') k
         \<or> prefix (''transactions:'' @ string_of_nat owner @ '':'') k"
  shows "\<not> user_namespace userId k"
proof
  assume "user_namespace userId k"
  then consider
      (a) "prefix (''analytics:'' @ string_of_nat userId @ '':'') k"
    | (t) "prefix (''transactions:'' @ string_of_nat userId @ '':'') k"
    | (u) "prefix (''user_analytics:'' @ string_of_nat userId) k"
    by (auto simp: user_namespace_def)
  then show False
  proof cases
    case a
    from assms(2) show False
    proof
      assume "prefix (''analytics:'' @ string_of_nat owner @ '':'') k"
      with a assms(1) show False
        using namespace_prefix_same_user [of "''analytics:''" userId k owner] by simp
    next
      assume "prefix (''transactions:'' @ string_of_nat owner @ '':'') k"
      with a show False by (cases k) auto
    qed
  next
    case t
    from assms(2) show False
    proof
      assume "prefix (''analytics:'' @ string_of_nat owner @ '':'') k"
      with t show False by (cases k) auto
    next
      assume "prefix (''transactions:'' @ string_of_nat owner @ '':'') k"
      with t assms(1) show False
        using namespace_prefix_same_user [of "''transactions:''" userId k owner] by simp
    qed
  next
    case u
    with assms(2) show False by (cases k) auto
  qed
qed

lemma user_analytics_entry_absent:
  assumes "no_user_analytics_keys client" and "prefix (''user_analytics:'' @ s) k"
  shows "store client k = None"
proof -
  from assms(2) have "prefix ''user_analytics:'' k"
    using append_prefixD by blast
  with assms(1) show ?thesis
    by (simp add: no_user_analytics_keys_def)
qed

text \<open>
  The routes keep a store free of \<open>user_analytics:\<close> keys: the three cache middlewares that
  are mounted write keys that begin with \<open>transactions:\<close>, \<open>analytics:\<close> and \<open>categories:\<close>,
  and an invalidation only removes entries. The store is empty when the server starts
  with an empty Redis.
\<close>

lemma cacheMiddleware_keeps_no_user_analytics_keys:
  assumes "no_user_analytics_keys client" and "\<not> prefix ''user_analytics:'' (keyGenerator req)"
  shows "no_user_analytics_keys (snd (cacheMiddleware keyGenerator expiration handler req client))"
  using assms
  by (auto simp: no_user_analytics_keys_def cacheMiddleware_def setCache_def Let_def
      split: option.splits)

lemma mounted_caches_keep_no_user_analytics_keys:
  assumes "no_user_analytics_keys client"
  shows "no_user_analytics_keys (snd (cacheTransactions handler req client))"
    and "no_user_analytics_keys (snd (cacheAnalytics handler req client))"
    and "no_user_analytics_keys (snd (cacheCategories handler req client))"
  using assms
  by (simp_all add: cacheTransactions_def cacheAnalytics_def cacheCategories_def
      cacheMiddleware_keeps_no_user_analytics_keys transactionsKeyGenerator_def
      analyticsKeyGenerator_def categoriesKeyGenerator_def)

lemma invalidations_keep_no_user_analytics_keys:
  assumes "no_user_analytics_keys client"
  shows "no_user_analytics_keys (snd (snd (router_put_id upd db client)))"
    and "no_user_analytics_keys (snd (snd (router_delete_id del db client)))"
    and "no_user_analytics_keys (invalidateCategoriesCache client)"
proof -
  show "no_user_analytics_keys (snd (snd (router_put_id upd db client)))"
    unfolding no_user_analytics_keys_def
  proof (intro allI impI)
    fix k assume "prefix ''user_analytics:'' k"
    with assms have "store client k = None" by (simp add: no_user_analytics_keys_def)
    with router_put_id_store [of upd db client k]
    show "store (snd (snd (router_put_id upd db client))) k = None" by auto
  qed
  show "no_user_analytics_keys (snd (snd (router_delete_id del db client)))"
    unfolding no_user_analytics_keys_def
  proof (intro allI impI)
    fix k assume "prefix ''user_analytics:'' k"
    with assms have "store client k = None" by (simp add: no_user_analytics_keys_def)
    with router_delete_id_store [of del db client k]
    show "store (snd (snd (router_delete_id del db client))) k = None" by auto
  qed
  show "no_user_analytics_keys (invalidateCategoriesCache client)"
    using assms
    by (auto simp: no_user_analytics_keys_def invalidateCategoriesCache_def deleteCache_def)
qed

lemma empty_store_no_user_analytics_keys:
  "no_user_analytics_keys \<lparr>isOpen = b, commands_reject = r, store = Map.empty\<rparr>"
  by (simp add: no_user_analytics_keys_def)

text \<open>
  Why the store has to be free of such keys: the pattern \<open>user_analytics:<id>*\<close> has no
  colon after the identifier, and matches the keys of every user whose identifier begins
  with the same digits.
\<close>

lemma user_analytics_pattern_matches_longer_identifiers:
  "glob (''user_analytics:'' @ string_of_nat 1 @ ''*'') (''user_analytics:'' @ string_of_nat 12)"
  by (simp add: digit_char_def)

text \<open>
  C10: a successful \<open>PUT\<close> or \<open>DELETE /api/transactions/:id\<close> changes a cache entry only by
  deleting it, and only when its key is under the patterns of the caller
  (\<open>analytics:<id>:*\<close>, \<open>transactions:<id>:*\<close>, \<open>user_analytics:<id>*\<close>), whether the caller is
  an admin acting on another user's transaction or not. On a store the routes can have
  built, which holds no \<open>user_analytics:\<close> key, every entry under the namespace of any
  other user (the owner of the transaction in particular) is left as it was: the owner's
  cached transaction lists and analytics are not invalidated.
\<close>

theorem admin_invalidation_frame:
  "(\<forall>k. store (snd (snd (router_put_id upd db client))) k \<noteq> store client k \<longrightarrow>
        user_namespace (u_id (req_user upd)) k
        \<and> store (snd (snd (router_put_id upd db client))) k = None)
   \<and> (\<forall>k. store (snd (snd (router_delete_id del db client))) k \<noteq> store client k \<longrightarrow>
        user_namespace (u_id (req_user del)) k
        \<and> store (snd (snd (router_delete_id del db client))) k = None)
   \<and> (no_user_analytics_keys client \<longrightarrow>
        (\<forall>owner k. owner \<noteq> u_id (req_user upd) \<and> user_namespace owner k \<longrightarrow>
           store (snd (snd (router_put_id upd db client))) k = store client k)
        \<and> (\<forall>owner k. owner \<noteq> u_id (req_user del) \<and> user_namespace owner k \<longrightarrow>
           store (snd (snd (router_delete_id del db client))) k = store client k))"
proof -
  have only_put: "\<forall>k. store (snd (snd (router_put_id upd db client))) k \<noteq> store client k \<longrightarrow>
        user_namespace (u_id (req_user upd)) k
        \<and> store (snd (snd (router_put_id upd db client))) k = None"
    using router_put_id_store [of upd db client] by blast
  have only_delete: "\<forall>k. store (snd (snd (router_delete_id del db client))) k \<noteq> store client k \<longrightarrow>
        user_namespace (u_id (req_user del)) k
        \<and> store (snd (snd (router_delete_id del db client))) k = None"
    using router_delete_id_store [of del db client] by blast
  have other: "store client' k = store client k"
    if clean: "no_user_analytics_keys client" and ne: "owner \<noteq> caller"
      and own: "user_namespace owner k"
      and step: "store client' k = store client k \<or> (user_namespace caller k \<and> store client' k = None)"
    for client' :: "'a redis" and owner caller k
  proof (cases "prefix (''user_analytics:'' @ string_of_nat owner) k")
    case True
    with clean have "store client k = None"
      by (rule user_analytics_entry_absent)
    with step show ?thesis by auto
  next
    case False
    with own have "prefix (''analytics:'' @ string_of_nat owner @ '':'') k
         \<or> prefix (''transactions:'' @ string_of_nat owner @ '':'') k"
      by (simp add: user_namespace_def)
    with ne have "\<not> user_namespace caller k"
      by (rule other_user_lists_outside_namespace)
    with step show ?thesis by simp
  qed
  have frame: "no_user_analytics_keys client \<longrightarrow>
        (\<forall>owner k. owner \<noteq> u_id (req_user upd) \<and> user_namespace owner k \<longrightarrow>
           store (snd (snd (router_put_id upd db client))) k = store client k)
        \<and> (\<forall>owner k. owner \<noteq> u_id (req_user del) \<and> user_namespace owner k \<longrightarrow>
           store (snd (snd (router_delete_id del db client))) k = store client k)"
    using other router_put_id_store [of upd db client] router_delete_id_store [of del db client]
    by blast
  from only_put only_delete frame show ?thesis by blast
qed

text \<open>
  The hypotheses of C10 hold for the admin 1 deleting transaction 7 of user 12, with a
  cached list of each of them in the store: the owner's cached list stays.
\<close>

theorem admin_invalidation_frame_witness:
  "no_user_analytics_keys
        \<lparr>isOpen = True, commands_reject = False,
         store = Map.empty(''transactions:12:1:10:all:all:none''
                   \<mapsto> (\<lparr>success = Some True, message = None, data = Some ''list''\<rparr>, 300),
                 ''transactions:1:1:10:all:all:none''
                   \<mapsto> (\<lparr>success = Some True, message = None, data = Some ''mine''\<rparr>, 300))\<rparr>
   \<and> user_namespace 12 ''transactions:12:1:10:all:all:none''
   \<and> store (snd (snd (router_delete_id
        \<lparr>req_user = \<lparr>u_id = 1, u_email = ''admin@financetracker.com'', u_name = ''Admin User'',
                     u_role = Admin\<rparr>,
         params_id = ''7'', req_query = Map.empty, route_path = ''/:id'', req_body = (),
         validation_errors = []\<rparr>
        \<lparr>users = [], categories = [],
         transactions = [\<lparr>t_id = 7, t_user_id = 12, t_category_id = 1, t_amount = 10,
                          t_description = ''rent'', t_type = ''expense'',
                          t_date = ''2024-01-15''\<rparr>],
         categories_id_seq = 1, transactions_id_seq = 7,
         reads_integer = decimal_integer, accepts_transaction = (\<lambda>b. True),
         accepts_category = (\<lambda>b. True)\<rparr>
        \<lparr>isOpen = True, commands_reject = False,
         store = Map.empty(''transactions:12:1:10:all:all:none''
                   \<mapsto> (\<lparr>success = Some True, message = None, data = Some ''list''\<rparr>, 300),
                 ''transactions:1:1:10:all:all:none''
                   \<mapsto> (\<lparr>success = Some True, message = None, data = Some ''mine''\<rparr>, 300))\<rparr>)))
       ''transactions:12:1:10:all:all:none''
     = Some (\<lparr>success = Some True, message = None, data = Some ''list''\<rparr>, 300)
   \<and> store (snd (snd (router_delete_id
        \<lparr>req_user = \<lparr>u_id = 1, u_email = ''admin@financetracker.com'', u_name = ''Admin User'',
                     u_role = Admin\<rparr>,
         params_id = ''7'', req_query = Map.empty, route_path = ''/:id'', req_body = (),
         validation_errors = []\<rparr>
        \<lparr>users = [], categories = [],
         transactions = [\<lparr>t_id = 7, t_user_id = 12, t_category_id = 1, t_amount = 10,
                          t_description = ''rent'', t_type = ''expense'',
                          t_date = ''2024-01-15''\<rparr>],
         categories_id_seq = 1, transactions_id_seq = 7,
         reads_integer = decimal_integer, accepts_transaction = (\<lambda>b. True),
         accepts_category = (\<lambda>b. True)\<rparr>
        \<lparr>isOpen = True, commands_reject = False,
         store = Map.empty(''transactions:12:1:10:all:all:none''
                   \<mapsto> (\<lparr>success = Some True, message = None, data = Some ''list''\<rparr>, 300),
                 ''transactions:1:1:10:all:all:none''
                   \<mapsto> (\<lparr>success = Some True, message = None, data = Some ''mine''\<rparr>, 300))\<rparr>)))
       ''transactions:1:1:10:all:all:none'' = None
   \<and> user_namespace 1 ''transactions:1:1:10:all:all:none''"
proof -
  let ?del = "\<lparr>req_user = \<lparr>u_id = 1, u_email = ''admin@financetracker.com'', u_name = ''Admin User'',
                     u_role = Admin\<rparr>,
         params_id = ''7'', req_query = Map.empty, route_path = ''/:id'', req_body = (),
         validation_errors = []\<rparr>"
  let ?db = "\<lparr>users = [], categories = [],
         transactions = [\<lparr>t_id = 7, t_user_id = 12, t_category_id = 1, t_amount = 10,
                          t_description = ''rent'', t_type = ''expense'',
                          t_date = ''2024-01-15''\<rparr>],
         categories_id_seq = 1, transactions_id_seq = 7,
         reads_integer = decimal_integer, accepts_transaction = (\<lambda>b. True),
         accepts_category = (\<lambda>b. True)\<rparr>"
  let ?c = "\<lparr>isOpen = True, commands_reject = False,
         store = Map.empty(''transactions:12:1:10:all:all:none''
                   \<mapsto> (\<lparr>success = Some True, message = None, data = Some ''list''\<rparr>, 300),
                 ''transactions:1:1:10:all:all:none''
                   \<mapsto> (\<lparr>success = Some True, message = None, data = Some ''mine''\<rparr>, 300))\<rparr>"
  have clean: "no_user_analytics_keys ?c"
    by (auto simp: no_user_analytics_keys_def)
  have own: "(12::nat) \<noteq> u_id (req_user ?del)
      \<and> user_namespace 12 ''transactions:12:1:10:all:all:none''"
    by (simp add: user_namespace_def digit_char_def)
  note frame = admin_invalidation_frame [where del = ?del and db = ?db and client = ?c,
      THEN conjunct2, THEN conjunct2, rule_format, OF clean, THEN conjunct2]
  from frame own
  have "store (snd (snd (router_delete_id ?del ?db ?c))) ''transactions:12:1:10:all:all:none''
      = store ?c ''transactions:12:1:10:all:all:none''"
    by blast
  moreover have gone: "store (snd (snd (router_delete_id ?del ?db ?c)))
      ''transactions:1:1:10:all:all:none'' = None"
    by (simp add: router_delete_id_def requireUserOrAdmin_def requireRole_def
        checkDataOwnership_def invalidateUserCacheAfterTransaction_def
        invalidateCacheAfterModification_def deleteTransaction_def select_transaction_def
        owner_filter_def reply_def invalidateUserCache_store user_namespace_def digit_char_def
        decimal_eval)
  moreover have "user_namespace 1 ''transactions:1:1:10:all:all:none''"
    using admin_invalidation_frame [where del = ?del and db = ?db and client = ?c,
        THEN conjunct2, THEN conjunct1, rule_format,
        of "''transactions:1:1:10:all:all:none''"] gone
    by simp
  ultimately show ?thesis using clean own by simp
qed

section \<open>The kind of a transaction and of its category\<close>











lemma c_id_update_category_row [simp]: "c_id (update_category_row i b c) = c_id c"
  by (simp add: update_category_row_def)








end
